theory Spec2Isabelle
  imports Complex_Main "HOL-Library.Sublist"
begin

section \<open>JavaScript strings as the server uses them\<close>

text \<open>
  The server (\<^verbatim>\<open>src/server/index.mjs\<close>) coerces every field it reads with
  \<^verbatim>\<open>String(x || "")\<close>, so an absent, \<^verbatim>\<open>null\<close> or empty field is the empty string;
  the model takes such fields as \<^typ>\<open>string\<close> and writes the empty string for all three.
  A field that the code tests for truthiness and that may be \<^verbatim>\<open>null\<close> in the store is a
  \<^typ>\<open>string option\<close>. Numbers are exact rationals: the rounding of IEEE doubles and the
  values \<^verbatim>\<open>NaN\<close> and \<^verbatim>\<open>Infinity\<close> are outside the model.
\<close>

definition isWhitespace :: "char \<Rightarrow> bool" where
  "isWhitespace c =
     (c = CHR '' '' \<or> c = CHR 0x09 \<or> c = CHR 0x0A \<or> c = CHR 0x0B \<or> c = CHR 0x0C \<or> c = CHR 0x0D)"

text \<open>\<^verbatim>\<open>String.prototype.trim\<close>, on the ASCII white space.\<close>

definition trim :: "string \<Rightarrow> string" where
  "trim s = rev (dropWhile isWhitespace (rev (dropWhile isWhitespace s)))"

definition caseTable :: "(char \<times> char) list" where
  "caseTable = zip ''abcdefghijklmnopqrstuvwxyz'' ''ABCDEFGHIJKLMNOPQRSTUVWXYZ''"

definition toUpperCase :: "string \<Rightarrow> string" where
  "toUpperCase s = map (\<lambda>c. case map_of caseTable c of Some u \<Rightarrow> u | None \<Rightarrow> c) s"

definition toLowerCase :: "string \<Rightarrow> string" where
  "toLowerCase s =
     map (\<lambda>c. case map_of (map (\<lambda>(l, u). (u, l)) caseTable) c of Some l \<Rightarrow> l | None \<Rightarrow> c) s"

text \<open>\<^verbatim>\<open>hay.includes(needle)\<close>: the needle occurs as a contiguous run.\<close>

fun strIncludes :: "string \<Rightarrow> string \<Rightarrow> bool" where
  "strIncludes [] needle = (needle = [])"
| "strIncludes (c # cs) needle = (take (length needle) (c # cs) = needle \<or> strIncludes cs needle)"

text \<open>\<^verbatim>\<open>s.split(sep)\<close> for a one-character separator: never the empty list.\<close>

fun split :: "char \<Rightarrow> string \<Rightarrow> string list" where
  "split sep [] = [[]]"
| "split sep (c # cs) =
     (if c = sep then [] # split sep cs
      else (case split sep cs of [] \<Rightarrow> [[c]] | w # ws \<Rightarrow> (c # w) # ws))"

text \<open>\<^verbatim>\<open>a || b\<close> on nullable strings: the empty string is falsy like \<^verbatim>\<open>null\<close>.\<close>

definition truthy :: "string option \<Rightarrow> bool" where
  "truthy x = (case x of None \<Rightarrow> False | Some v \<Rightarrow> v \<noteq> [])"

definition orElse :: "string option \<Rightarrow> string option \<Rightarrow> string option" where
  "orElse a b = (if truthy a then a else b)"

definition orNull :: "string option \<Rightarrow> string option" where
  "orNull a = (if truthy a then a else None)"

section \<open>Errors\<close>

text \<open>
  A thrown \<^verbatim>\<open>Error\<close> is a value: its message and the \<^verbatim>\<open>status\<close> property when the
  code sets one. The request handler answers with \<^verbatim>\<open>Number(err.status || 500)\<close>.
\<close>

datatype error = Error (err_status: "nat option") (err_message: string)

definition httpStatus :: "error \<Rightarrow> nat" where
  "httpStatus e = (case err_status e of None \<Rightarrow> 500 | Some n \<Rightarrow> if n = 0 then 500 else n)"

section \<open>Payment gateway adapter: webhook signature\<close>

text \<open>
  \<^verbatim>\<open>parsePaymongoSignature\<close> (lines 539-546): the header is cut at commas, each part at
  \<^verbatim>\<open>=\<close>; the first two pieces are key and value, and a pair is stored, trimmed, when
  both are non-empty. A later pair with the same key replaces the earlier one.
\<close>

definition parsePart :: "(string \<rightharpoonup> string) \<Rightarrow> string \<Rightarrow> (string \<rightharpoonup> string)" where
  "parsePart out part =
     (case split CHR ''='' part of
        k # v # _ \<Rightarrow> if k \<noteq> [] \<and> v \<noteq> [] then out(trim k \<mapsto> trim v) else out
      | _ \<Rightarrow> out)"

definition parsePaymongoSignature :: "string \<Rightarrow> (string \<rightharpoonup> string)" where
  "parsePaymongoSignature headerValue = foldl parsePart Map.empty (split CHR '','' headerValue)"

text \<open>
  \<^verbatim>\<open>verifyPaymongoWebhookSignature\<close> (lines 548-561). The digest
  \<^verbatim>\<open>crypto.createHmac("sha256", secret).update(signed).digest("hex")\<close> is Node's; it is
  the parameter \<open>hmac\<close>, taking the key and the message. The secret
  \<^verbatim>\<open>PAYMONGO_WEBHOOK_SECRET\<close> is read from the environment and is a parameter as well.
\<close>

definition sigCandidates :: "(string \<rightharpoonup> string) \<Rightarrow> string list" where
  "sigCandidates sig =
     filter (\<lambda>c. c \<noteq> [])
       (concat (map (\<lambda>k. case sig k of None \<Rightarrow> [] | Some v \<Rightarrow> [v]) [''te'', ''li'']))"

definition verifyPaymongoWebhookSignature ::
  "(string \<Rightarrow> string \<Rightarrow> string) \<Rightarrow> string \<Rightarrow> string \<Rightarrow> string \<Rightarrow> error + bool" where
  "verifyPaymongoWebhookSignature hmac secret rawBody headerValue =
     (if secret = [] \<or> strIncludes secret ''...''
      then Inl (Error (Some 500) ''PayMongo webhook secret not configured.'')
      else
        let sig = parsePaymongoSignature headerValue;
            timestamp = (case sig ''t'' of None \<Rightarrow> [] | Some t \<Rightarrow> t);
            candidates = sigCandidates sig
        in if timestamp = [] \<or> candidates = [] then Inr False
           else
             let signed = timestamp @ ''.'' @ rawBody;
                 expected = hmac secret signed
             in Inr (\<exists>c \<in> set candidates. c = expected))"

text \<open>
  A stand-in digest for running the verifier on concrete inputs: it keeps key and message
  apart, so different messages give different digests.
\<close>

definition demoHmac :: "string \<Rightarrow> string \<Rightarrow> string" where
  "demoHmac key msg = ''mac('' @ key @ ''|'' @ msg @ '')''"

section \<open>The data store\<close>

text \<open>
  The tables live in a hosted relational store reached over REST
  (\<^verbatim>\<open>supabaseRequest\<close>); the store itself is not code of this repository. The model
  keeps each table as the list of its rows, in insertion order, and gives the requests the
  code issues their relational meaning: a \<^verbatim>\<open>GET\<close> with \<^verbatim>\<open>col=eq.v\<close> and
  \<^verbatim>\<open>limit=1\<close> is the first row whose column equals \<open>v\<close> (a \<^verbatim>\<open>null\<close> column equals
  nothing), a \<^verbatim>\<open>POST\<close> appends rows, a \<^verbatim>\<open>PATCH\<close> rewrites the named columns of every
  row the filter selects. Requests are taken to succeed: a failure of the store or of the
  network in the middle of a sequence is not modelled. Row identifiers are issued by the
  store; they are naturals here, drawn from a counter, and \<open>0\<close> is never issued (in
  JavaScript \<open>0\<close> would be falsy). Only the columns the code reads or writes are kept.
\<close>

record product =
  p_id :: nat
  p_sku :: string
  p_name :: string
  p_category :: string
  p_unit :: string
  p_price :: rat
  p_stock_cases :: rat
  p_image_url :: string
  p_is_active :: bool

record order_row =
  o_id :: nat
  o_order_code :: string
  o_user_id :: string
  o_customer_name :: string
  o_contact :: string
  o_address :: string
  o_subtotal :: rat
  o_delivery_fee :: rat
  o_total :: rat
  o_status :: string
  o_payment_status :: string
  o_payment_provider :: "string option"
  o_payment_method :: string
  o_paymongo_checkout_session_id :: "string option"
  o_paymongo_payment_id :: "string option"
  o_paid_at :: "string option"

text \<open>
  An item row as \<^verbatim>\<open>createOrder\<close> builds it; \<^verbatim>\<open>{...row, order_id: order.id}\<close> at
  insertion fills \<open>i_order_id\<close>. \<open>i_product_id\<close> is nullable in the store.
\<close>

record item_row =
  i_product_id :: "nat option"
  i_sku :: string
  i_name :: string
  i_category :: string
  i_unit :: string
  i_image_url :: string
  i_unit_price :: rat
  i_qty :: rat
  i_line_total :: rat

record order_item = item_row +
  i_order_id :: nat

record status_event =
  e_order_id :: nat
  e_status :: "string option"
  e_note :: string
  e_changed_by :: "string option"

record payment_row =
  pay_order_id :: nat
  pay_provider :: string
  pay_status :: string
  pay_amount :: rat
  pay_currency :: string
  pay_provider_event_id :: "string option"
  pay_provider_checkout_session_id :: "string option"
  pay_provider_payment_id :: "string option"
  pay_raw_payload :: "string option"

record store =
  products :: "product list"
  orders :: "order_row list"
  order_items :: "order_item list"
  order_status_events :: "status_event list"
  payments :: "payment_row list"
  next_id :: nat

record profile =
  user_id :: string
  role :: string

text \<open>\<^verbatim>\<open>PATCH\<close>: rewrite the rows a filter selects, leave the others.\<close>

definition patchRows :: "('r \<Rightarrow> bool) \<Rightarrow> ('r \<Rightarrow> 'r) \<Rightarrow> 'r list \<Rightarrow> 'r list" where
  "patchRows sel upd rows = map (\<lambda>r. if sel r then upd r else r) rows"

section \<open>Status labels\<close>

text \<open>
  \<^verbatim>\<open>uiStatusToDbStatus\<close> (lines 604-621) and \<^verbatim>\<open>toUiStatus\<close> (lines 125-136) look a
  key up in an object literal with \<^verbatim>\<open>map[key]\<close>. Such a lookup finds the literal's own
  keys and, when the key is none of them, the members that every object inherits from
  \<^verbatim>\<open>Object.prototype\<close>: eleven built-in functions and, under \<^verbatim>\<open>__proto__\<close>, the
  prototype object itself. All of these are truthy. A value of the lookup is therefore a
  string, a built-in function (kept by its name) or the prototype object.
\<close>

datatype js_value = Str string | Fn string | ProtoObject

definition objectPrototype :: "(string \<times> js_value) list" where
  "objectPrototype =
     [(''constructor'', Fn ''Object''),
      (''__defineGetter__'', Fn ''__defineGetter__''),
      (''__defineSetter__'', Fn ''__defineSetter__''),
      (''hasOwnProperty'', Fn ''hasOwnProperty''),
      (''__lookupGetter__'', Fn ''__lookupGetter__''),
      (''__lookupSetter__'', Fn ''__lookupSetter__''),
      (''isPrototypeOf'', Fn ''isPrototypeOf''),
      (''propertyIsEnumerable'', Fn ''propertyIsEnumerable''),
      (''toString'', Fn ''toString''),
      (''valueOf'', Fn ''valueOf''),
      (''__proto__'', ProtoObject),
      (''toLocaleString'', Fn ''toLocaleString'')]"

text \<open>\<^verbatim>\<open>literal[key]\<close>; \<open>None\<close> is \<^verbatim>\<open>undefined\<close>.\<close>

definition lookupProperty :: "(string \<times> string) list \<Rightarrow> string \<Rightarrow> js_value option" where
  "lookupProperty literal key =
     (case map_of literal key of
        Some v \<Rightarrow> Some (Str v)
      | None \<Rightarrow> map_of objectPrototype key)"

text \<open>Truthiness, and \<^verbatim>\<open>String(v)\<close> as Node prints a value in a template string.\<close>

definition jsTruthy :: "js_value \<Rightarrow> bool" where
  "jsTruthy v = (case v of Str t \<Rightarrow> t \<noteq> [] | Fn _ \<Rightarrow> True | ProtoObject \<Rightarrow> True)"

definition jsToString :: "js_value \<Rightarrow> string" where
  "jsToString v =
     (case v of
        Str t \<Rightarrow> t
      | Fn name \<Rightarrow> ''function '' @ name @ ''() { [native code] }''
      | ProtoObject \<Rightarrow> ''[object Object]'')"

text \<open>
  What a request body carries for a property with this value: \<^verbatim>\<open>JSON.stringify\<close> drops
  a property whose value is a function (\<open>None\<close>) and writes the prototype object, which
  has no enumerable property, as \<^verbatim>\<open>{}\<close>. The store writes the columns the body carries,
  a JSON object as its text, and leaves a column the body does not carry as it is (on
  insertion: \<^verbatim>\<open>null\<close>).
\<close>

definition jsonProperty :: "js_value \<Rightarrow> string option" where
  "jsonProperty v =
     (case v of Str t \<Rightarrow> Some t | Fn _ \<Rightarrow> None | ProtoObject \<Rightarrow> Some ''{}'')"

definition uiStatusMap :: "(string \<times> string) list" where
  "uiStatusMap =
     [(''Order Placed'', ''order_placed''),
      (''Preparing'', ''preparing''),
      (''In Transit'', ''in_transit''),
      (''Out for Delivery'', ''out_for_delivery''),
      (''Delivered'', ''delivered''),
      (''Cancelled'', ''cancelled''),
      (''pending_payment'', ''pending_payment''),
      (''order_placed'', ''order_placed''),
      (''preparing'', ''preparing''),
      (''in_transit'', ''in_transit''),
      (''out_for_delivery'', ''out_for_delivery''),
      (''delivered'', ''delivered''),
      (''cancelled'', ''cancelled'')]"

text \<open>\<^verbatim>\<open>map[String(status || "").trim()] || ""\<close>.\<close>

definition uiStatusToDbStatus :: "string \<Rightarrow> js_value" where
  "uiStatusToDbStatus status =
     (case lookupProperty uiStatusMap (trim status) of
        None \<Rightarrow> Str []
      | Some v \<Rightarrow> if jsTruthy v then v else Str [])"

definition dbStatusMap :: "(string \<times> string) list" where
  "dbStatusMap =
     [(''pending_payment'', ''Order Placed''),
      (''order_placed'', ''Order Placed''),
      (''preparing'', ''Preparing''),
      (''in_transit'', ''In Transit''),
      (''out_for_delivery'', ''Out for Delivery''),
      (''delivered'', ''Delivered''),
      (''cancelled'', ''Cancelled'')]"

text \<open>
  \<^verbatim>\<open>map[dbStatus] || dbStatus || "Order Placed"\<close>; a value that is not a string is turned
  into one to serve as the key.
\<close>

definition toUiStatus :: "js_value \<Rightarrow> js_value" where
  "toUiStatus dbStatus =
     (case lookupProperty dbStatusMap (jsToString dbStatus) of
        None \<Rightarrow> (if jsTruthy dbStatus then dbStatus else Str ''Order Placed'')
      | Some v \<Rightarrow>
          if jsTruthy v then v
          else if jsTruthy dbStatus then dbStatus else Str ''Order Placed'')"

text \<open>\<^verbatim>\<open>isQrphMethod\<close> (lines 501-503).\<close>

definition isQrphMethod :: "string \<Rightarrow> bool" where
  "isQrphMethod method = strIncludes (toUpperCase method) ''QRPH''"

section \<open>Order lifecycle manager: status updates\<close>

text \<open>
  Every operation on the store returns the store as it is when the operation ends or
  throws, with the error or the result: a write made before a throw stays visible.

  \<^verbatim>\<open>updateOrderStatus\<close> (lines 757-797). The order is read by code with
  \<^verbatim>\<open>limit=1\<close>; the \<^verbatim>\<open>PATCH\<close> is filtered by code as well, and the function returns the
  first rewritten row.
\<close>

definition updateOrderStatus ::
  "store \<Rightarrow> string \<Rightarrow> string \<Rightarrow> profile \<Rightarrow> store \<times> (error + order_row option)" where
  "updateOrderStatus s orderCode nextStatusInput actorProfile =
     (let nextStatus = uiStatusToDbStatus nextStatusInput in
      if \<not> jsTruthy nextStatus then (s, Inl (Error None ''Invalid status.''))
      else
        case find (\<lambda>r. o_order_code r = orderCode) (orders s) of
          None \<Rightarrow> (s, Inl (Error None ''Order not found.''))
        | Some order \<Rightarrow>
            let unpaidQrph =
                  (isQrphMethod (o_payment_method order) \<and>
                   toLowerCase (o_payment_status order) \<noteq> ''paid'');
                allowedBeforePayment = [Str ''pending_payment'', Str ''cancelled'']
            in
              if unpaidQrph \<and> nextStatus \<notin> set allowedBeforePayment
              then (s, Inl (Error (Some 409)
                      ''Cannot move QRPH order status until payment is marked paid.''))
              else
                let s1 = s\<lparr>orders :=
                           patchRows (\<lambda>r. o_order_code r = orderCode)
                             (\<lambda>r. case jsonProperty nextStatus of
                                    None \<Rightarrow> r
                                  | Some status \<Rightarrow> r\<lparr>o_status := status\<rparr>)
                             (orders s)\<rparr>;
                    updated = find (\<lambda>r. o_order_code r = orderCode) (orders s1);
                    s2 = s1\<lparr>order_status_events := order_status_events s1 @
                           [\<lparr>e_order_id = o_id order,
                             e_status = jsonProperty nextStatus,
                             e_note = ''Status updated to '' @ jsToString (toUiStatus nextStatus) @
                                      '' by '' @ role actorProfile @ ''.'',
                             e_changed_by = Some (user_id actorProfile)\<rparr>]\<rparr>
                in (s2, Inr updated))"

section \<open>Order lifecycle manager: payment confirmation\<close>

text \<open>\<^verbatim>\<open>findOrderByCode\<close> (lines 799-804), \<^verbatim>\<open>findOrderByCheckoutSessionId\<close> (lines 806-812).\<close>

definition findOrderByCode :: "store \<Rightarrow> string \<Rightarrow> order_row option" where
  "findOrderByCode s orderCode = find (\<lambda>r. o_order_code r = orderCode) (orders s)"

definition findOrderByCheckoutSessionId :: "store \<Rightarrow> string option \<Rightarrow> order_row option" where
  "findOrderByCheckoutSessionId s checkoutSessionId =
     (if \<not> truthy checkoutSessionId then None
      else find (\<lambda>r. o_paymongo_checkout_session_id r = checkoutSessionId) (orders s))"

text \<open>\<^verbatim>\<open>hasOrderStatusEventNote\<close> (lines 814-820).\<close>

definition hasOrderStatusEventNote :: "store \<Rightarrow> nat \<Rightarrow> string \<Rightarrow> bool" where
  "hasOrderStatusEventNote s orderId note =
     (filter (\<lambda>e. e_order_id e = orderId \<and> e_note e = note) (order_status_events s) \<noteq> [])"

text \<open>
  \<^verbatim>\<open>deductStockForOrder\<close> (lines 822-844). \<open>deductStockItem\<close> is the body of its loop:
  read the product by identifier, skip when there is none, write the floored difference to
  every row with that identifier.
\<close>

definition deductStockItem :: "store \<Rightarrow> order_item \<Rightarrow> store" where
  "deductStockItem s item =
     (case i_product_id item of
        None \<Rightarrow> s
      | Some pid \<Rightarrow>
          (case find (\<lambda>p. p_id p = pid) (products s) of
             None \<Rightarrow> s
           | Some product \<Rightarrow>
               let current = p_stock_cases product;
                   next = max 0 (current - i_qty item)
               in s\<lparr>products :=
                      patchRows (\<lambda>p. p_id p = p_id product)
                        (\<lambda>p. p\<lparr>p_stock_cases := next\<rparr>) (products s)\<rparr>))"

definition validItem :: "order_item \<Rightarrow> bool" where
  "validItem i = ((case i_product_id i of None \<Rightarrow> False | Some pid \<Rightarrow> pid \<noteq> 0) \<and> i_qty i > 0)"

definition deductStockForOrder :: "store \<Rightarrow> nat \<Rightarrow> store" where
  "deductStockForOrder s orderId =
     (let items = filter (\<lambda>i. i_order_id i = orderId) (order_items s);
          validItems = filter validItem items
      in foldl deductStockItem s validItems)"

text \<open>
  The arguments of \<^verbatim>\<open>markOrderPaidFromWebhook\<close> as the webhook handler passes them
  (lines 937-969): the event identifier is a string (empty when the event has none), the
  others are \<^verbatim>\<open>null\<close> when absent. \<open>now\<close> is the clock reading
  \<^verbatim>\<open>new Date().toISOString()\<close>.
\<close>

record webhook_args =
  orderCode :: "string option"
  checkoutSessionId :: "string option"
  paymentId :: "string option"
  eventId :: string
  rawPayload :: string
  now :: string

definition STOCK_MARKER_NOTE :: string where
  "STOCK_MARKER_NOTE = ''QRPH payment confirmed via PayMongo webhook. Stock deducted.''"

text \<open>The order the webhook is about (line 855): by code when one is given, else by session.\<close>

definition webhookOrder :: "store \<Rightarrow> webhook_args \<Rightarrow> order_row option" where
  "webhookOrder s a =
     (case (case orderCode a of
              None \<Rightarrow> None
            | Some c \<Rightarrow> if c = [] then None else findOrderByCode s c) of
        Some order \<Rightarrow> Some order
      | None \<Rightarrow> findOrderByCheckoutSessionId s (checkoutSessionId a))"

text \<open>
  \<^verbatim>\<open>markOrderPaidFromWebhook\<close> (lines 846-912); the result is the \<^verbatim>\<open>duplicate\<close> flag.
\<close>

definition markOrderPaidFromWebhook :: "store \<Rightarrow> webhook_args \<Rightarrow> store \<times> (error + bool)" where
  "markOrderPaidFromWebhook s a =
     (let existingEvent = filter (\<lambda>p. pay_provider_event_id p = Some (eventId a)) (payments s) in
      if existingEvent \<noteq> [] then (s, Inr True)
      else
        case webhookOrder s a of
          None \<Rightarrow> (s, Inl (Error None ''Order not found for webhook.''))
        | Some order \<Rightarrow>
            let s1 = s\<lparr>orders :=
                       patchRows (\<lambda>r. o_id r = o_id order)
                         (\<lambda>r. r\<lparr>o_payment_status := ''paid'',
                                 o_status := ''order_placed'',
                                 o_paid_at := Some (now a),
                                 o_paymongo_checkout_session_id :=
                                   orNull (orElse (checkoutSessionId a)
                                     (o_paymongo_checkout_session_id order)),
                                 o_paymongo_payment_id := orNull (paymentId a)\<rparr>)
                         (orders s)\<rparr>;
                stockAlreadyDeducted = hasOrderStatusEventNote s1 (o_id order) STOCK_MARKER_NOTE;
                s2 = (if \<not> stockAlreadyDeducted
                      then
                        let d = deductStockForOrder s1 (o_id order)
                        in d\<lparr>order_status_events := order_status_events d @
                               [\<lparr>e_order_id = o_id order,
                                 e_status = Some ''order_placed'',
                                 e_note = STOCK_MARKER_NOTE,
                                 e_changed_by = None\<rparr>]\<rparr>
                      else s1);
                s3 = s2\<lparr>payments :=
                       patchRows (\<lambda>p. pay_order_id p = o_id order)
                         (\<lambda>p. p\<lparr>pay_status := ''paid'',
                                 pay_provider_event_id := Some (eventId a),
                                 pay_provider_checkout_session_id := orNull (checkoutSessionId a),
                                 pay_provider_payment_id := orNull (paymentId a),
                                 pay_raw_payload := Some (rawPayload a)\<rparr>)
                         (payments s2)\<rparr>;
                s4 = s3\<lparr>order_status_events := order_status_events s3 @
                       [\<lparr>e_order_id = o_id order,
                         e_status = Some ''order_placed'',
                         e_note = ''QRPH payment confirmed via PayMongo webhook.'',
                         e_changed_by = None\<rparr>]\<rparr>
            in (s4, Inr False))"

section \<open>Order builder\<close>

text \<open>
  The request body of \<^verbatim>\<open>POST /api/orders\<close>. The client may send any further fields;
  \<open>price\<close> and \<open>clientTotal\<close> stand for amounts it sends along, which the server never
  reads.
\<close>

record cart_item =
  productId :: string
  qty :: rat
  price :: "rat option"

record order_payload =
  customerName :: string
  contact :: string
  address :: string
  paymentMethod :: string
  items :: "cart_item list"
  clientTotal :: "rat option"

text \<open>
  \<^verbatim>\<open>skuQty\<close> is a \<^verbatim>\<open>Map\<close>, which iterates in the order of first insertion: an
  association list with distinct keys. \<open>addQty\<close> is
  \<^verbatim>\<open>skuQty.set(sku, (skuQty.get(sku) || 0) + qty)\<close>.
\<close>

fun addQty :: "(string \<times> rat) list \<Rightarrow> string \<Rightarrow> rat \<Rightarrow> (string \<times> rat) list" where
  "addQty [] sku q = [(sku, 0 + q)]"
| "addQty ((k, v) # m) sku q = (if k = sku then (k, v + q) # m else (k, v) # addQty m sku q)"

text \<open>The first loop of \<^verbatim>\<open>createOrder\<close> (lines 634-640).\<close>

fun mergeItems :: "(string \<times> rat) list \<Rightarrow> cart_item list \<Rightarrow> error + (string \<times> rat) list" where
  "mergeItems skuQty [] = Inr skuQty"
| "mergeItems skuQty (item # rest) =
     (let sku = trim (productId item);
          q = qty item
      in if sku = [] \<or> q \<le> 0 then Inl (Error None ''Invalid order item.'')
         else mergeItems (addQty skuQty sku q) rest)"

text \<open>
  \<^verbatim>\<open>escapeCsvValues\<close> (lines 121-123) drops the double quotes of each value before
  quoting it; \<^verbatim>\<open>getProductsBySkus\<close> (lines 209-214) asks for the rows whose SKU is
  one of the values so cleaned.
\<close>

definition escapeCsvValues :: "string list \<Rightarrow> string list" where
  "escapeCsvValues vals = map (filter (\<lambda>c. c \<noteq> CHR 0x22)) vals"

definition getProductsBySkus :: "store \<Rightarrow> string list \<Rightarrow> product list" where
  "getProductsBySkus s skus =
     (if skus = [] then []
      else filter (\<lambda>p. p_sku p \<in> set (escapeCsvValues skus)) (products s))"

text \<open>
  \<^verbatim>\<open>productBySku.get(sku)\<close>: the map is built from the rows in order, so the last row
  with a SKU is the one kept.
\<close>

definition productBySku :: "product list \<Rightarrow> string \<Rightarrow> product option" where
  "productBySku rows sku = find (\<lambda>p. p_sku p = sku) (rev rows)"

text \<open>The object pushed on \<^verbatim>\<open>itemRows\<close> (lines 657-667).\<close>

definition itemRowOf :: "product \<Rightarrow> rat \<Rightarrow> rat \<Rightarrow> rat \<Rightarrow> item_row" where
  "itemRowOf p unitPrice q lineTotal =
     \<lparr>i_product_id = Some (p_id p),
      i_sku = p_sku p,
      i_name = p_name p,
      i_category = p_category p,
      i_unit = p_unit p,
      i_image_url = p_image_url p,
      i_unit_price = unitPrice,
      i_qty = q,
      i_line_total = lineTotal\<rparr>"

text \<open>The row as the loop fills it for product \<open>p\<close> and quantity \<open>q\<close>.\<close>

abbreviation lineOf :: "product \<Rightarrow> rat \<Rightarrow> item_row" where
  "lineOf p q \<equiv> itemRowOf p (p_price p) q (p_price p * q)"

text \<open>The second loop (lines 650-668), with its accumulators \<open>itemRows\<close> and \<open>subtotal\<close>.\<close>

fun buildItemRows ::
  "product list \<Rightarrow> (string \<times> rat) list \<Rightarrow> item_row list \<Rightarrow> rat \<Rightarrow> error + (item_row list \<times> rat)" where
  "buildItemRows rows [] itemRows subtotal = Inr (itemRows, subtotal)"
| "buildItemRows rows ((sku, q) # rest) itemRows subtotal =
     (case productBySku rows sku of
        None \<Rightarrow> Inl (Error None (sku @ '' is inactive.''))
      | Some p \<Rightarrow>
          if \<not> p_is_active p then Inl (Error None (sku @ '' is inactive.''))
          else if p_stock_cases p < q then Inl (Error None (p_name p @ '' has insufficient stock.''))
          else
            let unitPrice = p_price p;
                lineTotal = unitPrice * q
            in buildItemRows rows rest
                 (itemRows @ [itemRowOf p unitPrice q lineTotal])
                 (subtotal + lineTotal))"

text \<open>
  What \<^verbatim>\<open>createOrder\<close> holds at line 669, when every check has passed and nothing has
  been written yet.
\<close>

record checked_order =
  c_user_id :: string
  c_customerName :: string
  c_contact :: string
  c_address :: string
  c_paymentMethod :: string
  c_itemRows :: "item_row list"
  c_subtotal :: rat

text \<open>Lines 624-668 of \<^verbatim>\<open>createOrder\<close>: the reads and the checks. No request here writes.\<close>

definition checkOrder :: "store \<Rightarrow> order_payload \<Rightarrow> profile option \<Rightarrow> error + checked_order" where
  "checkOrder s payload authProfile =
     (let customerName' = trim (customerName payload);
          contact' = trim (contact payload);
          address' = trim (address payload);
          paymentMethod' = trim (if paymentMethod payload = [] then ''QRPH'' else paymentMethod payload);
          uid = (case authProfile of None \<Rightarrow> [] | Some p \<Rightarrow> user_id p)
      in
        if uid = [] \<or> customerName' = [] \<or> contact' = [] \<or> address' = [] \<or> items payload = []
        then Inl (Error None ''Missing required order fields.'')
        else
          case mergeItems [] (items payload) of
            Inl e \<Rightarrow> Inl e
          | Inr skuQty \<Rightarrow>
              let rows = getProductsBySkus s (map fst skuQty) in
              if length rows \<noteq> length skuQty
              then Inl (Error None ''Some products were not found in Supabase.'')
              else
                (case buildItemRows rows skuQty [] 0 of
                   Inl e \<Rightarrow> Inl e
                 | Inr (itemRows, subtotal) \<Rightarrow>
                     Inr \<lparr>c_user_id = uid,
                          c_customerName = customerName',
                          c_contact = contact',
                          c_address = address',
                          c_paymentMethod = paymentMethod',
                          c_itemRows = itemRows,
                          c_subtotal = subtotal\<rparr>))"

text \<open>Line 670, and the same amount as the cart page shows it (\<^verbatim>\<open>src/app.js\<close>, line 108).\<close>

definition deliveryFee :: "rat \<Rightarrow> rat" where
  "deliveryFee subtotal = (if subtotal \<ge> 800 then 0 else 60)"

definition cartDeliveryFee :: "rat \<Rightarrow> rat" where
  "cartDeliveryFee subtotal = (if subtotal \<ge> 800 then 0 else (if subtotal = 0 then 0 else 60))"

text \<open>
  The payment gateway: \<^verbatim>\<open>paymongoCreateCheckoutSession\<close> posts the order code and the
  line items and returns the session (\<^verbatim>\<open>data?.data || null\<close>) or throws. It is a
  parameter. \<^verbatim>\<open>toCentavos\<close> (lines 497-499) rounds with \<^verbatim>\<open>Math.round\<close>.
\<close>

record line_item =
  li_currency :: string
  li_amount :: int
  li_name :: string
  li_quantity :: rat

record checkout =
  ck_id :: "string option"
  ck_checkout_url :: "string option"

type_synonym gateway = "string \<Rightarrow> line_item list \<Rightarrow> error + checkout option"

definition toCentavos :: "rat \<Rightarrow> int" where
  "toCentavos amount = \<lfloor>amount * 100 + 1 / 2\<rfloor>"

record order_result =
  r_order :: order_row
  r_checkoutUrl :: "string option"

text \<open>
  Lines 670-693: the amounts and the header row that is posted, as the store returns it
  with the identifier it issued. Lines 694-755 follow in \<open>persistOrder\<close>: the writes,
  in the order of the source. \<open>newCode\<close> is the value of
  \<^verbatim>\<open>makeOrderCode()\<close>, which draws on the date and on \<^verbatim>\<open>Math.random\<close>. The result
  carries the inserted header row (\<^verbatim>\<open>inserted[0]\<close>) and the checkout address; the
  projection of the order that line 753 reads back for display is not modelled.
\<close>

text \<open>\<^verbatim>\<open>{...row, order_id: order.id}\<close> (line 701).\<close>

definition withOrderId :: "nat \<Rightarrow> item_row \<Rightarrow> order_item" where
  "withOrderId orderId row = item_row.extend row \<lparr>i_order_id = orderId\<rparr>"

definition orderHeader :: "nat \<Rightarrow> string \<Rightarrow> checked_order \<Rightarrow> order_row" where
  "orderHeader newId newCode c =
     (let subtotal = c_subtotal c;
          fee = deliveryFee subtotal;
          total = subtotal + fee;
          useQrph = isQrphMethod (c_paymentMethod c)
      in \<lparr>o_id = newId,
          o_order_code = newCode,
          o_user_id = c_user_id c,
          o_customer_name = c_customerName c,
          o_contact = c_contact c,
          o_address = c_address c,
          o_subtotal = subtotal,
          o_delivery_fee = fee,
          o_total = total,
          o_status = (if useQrph then ''pending_payment'' else ''order_placed''),
          o_payment_status = (if useQrph then ''pending'' else ''pending''),
          o_payment_provider = (if useQrph then Some ''paymongo'' else None),
          o_payment_method = c_paymentMethod c,
          o_paymongo_checkout_session_id = None,
          o_paymongo_payment_id = None,
          o_paid_at = None\<rparr>)"

definition persistOrder :: "gateway \<Rightarrow> string \<Rightarrow> store \<Rightarrow> checked_order \<Rightarrow> store \<times> (error + order_result)" where
  "persistOrder gw newCode s c =
     (let total = c_subtotal c + deliveryFee (c_subtotal c);
          useQrph = isQrphMethod (c_paymentMethod c);
          order = orderHeader (next_id s) newCode c;
          s1 = s\<lparr>orders := orders s @ [order], next_id := Suc (next_id s)\<rparr>;
          s2 = s1\<lparr>order_items := order_items s1 @
                 map (withOrderId (o_id order)) (c_itemRows c)\<rparr>;
          s3 = s2\<lparr>order_status_events := order_status_events s2 @
                 [\<lparr>e_order_id = o_id order,
                   e_status = Some (if useQrph then ''pending_payment'' else ''order_placed''),
                   e_note = (if useQrph then ''Order created. Awaiting QRPH payment.''
                             else ''Order created from web checkout.''),
                   e_changed_by = None\<rparr>]\<rparr>;
          s4 = s3\<lparr>payments := payments s3 @
                 [\<lparr>pay_order_id = o_id order,
                   pay_provider = ''paymongo'',
                   pay_status = ''pending'',
                   pay_amount = total,
                   pay_currency = ''PHP'',
                   pay_provider_event_id = None,
                   pay_provider_checkout_session_id = None,
                   pay_provider_payment_id = None,
                   pay_raw_payload = None\<rparr>]\<rparr>
      in
        if useQrph then
          (case gw (o_order_code order)
                  (map (\<lambda>it. \<lparr>li_currency = ''PHP'',
                               li_amount = toCentavos (i_unit_price it),
                               li_name = i_name it,
                               li_quantity = i_qty it\<rparr>) (c_itemRows c)) of
             Inl e \<Rightarrow> (s4, Inl e)
           | Inr ck \<Rightarrow>
               let checkoutUrl = orNull (case ck of None \<Rightarrow> None | Some k \<Rightarrow> ck_checkout_url k);
                   checkoutSessionId = orNull (case ck of None \<Rightarrow> None | Some k \<Rightarrow> ck_id k);
                   s5 = (if truthy checkoutSessionId
                         then
                           let t = s4\<lparr>orders :=
                                     patchRows (\<lambda>r. o_order_code r = o_order_code order)
                                       (\<lambda>r. r\<lparr>o_paymongo_checkout_session_id := checkoutSessionId\<rparr>)
                                       (orders s4)\<rparr>
                           in t\<lparr>payments :=
                                 patchRows (\<lambda>p. pay_order_id p = o_id order)
                                   (\<lambda>p. p\<lparr>pay_provider_checkout_session_id := checkoutSessionId\<rparr>)
                                   (payments t)\<rparr>
                         else s4)
               in (s5, Inr \<lparr>r_order = order, r_checkoutUrl = checkoutUrl\<rparr>))
        else (s4, Inr \<lparr>r_order = order, r_checkoutUrl = None\<rparr>))"

text \<open>\<^verbatim>\<open>createOrder\<close> (lines 623-755).\<close>

definition createOrder ::
  "gateway \<Rightarrow> string \<Rightarrow> store \<Rightarrow> order_payload \<Rightarrow> profile option \<Rightarrow> store \<times> (error + order_result)" where
  "createOrder gw newCode s payload authProfile =
     (case checkOrder s payload authProfile of
        Inl e \<Rightarrow> (s, Inl e)
      | Inr c \<Rightarrow> persistOrder gw newCode s c)"

section \<open>Invariants and the specification's vocabulary\<close>

text \<open>
  \<^verbatim>\<open>createOrder\<close> inserts a Payment row with every order header (line 715), and no
  operation deletes rows: in a store the server has built, every order has a Payment row.
\<close>

definition paymentRowsPresent :: "store \<Rightarrow> bool" where
  "paymentRowsPresent s = (\<forall>r \<in> set (orders s). \<exists>p \<in> set (payments s). pay_order_id p = o_id r)"

text \<open>
  The lifecycle as section 4.4 of the specification words it: a chain in which each status
  is reached from its immediate predecessor only, and a cancellation reachable from every
  status that is not terminal. This relation is the specification's; nothing in the server
  computes it.
\<close>

definition statusChain :: "string list" where
  "statusChain = [''pending_payment'', ''order_placed'', ''preparing'', ''in_transit'',
                  ''out_for_delivery'', ''delivered'']"

definition spec_transition_allowed :: "string \<Rightarrow> string \<Rightarrow> bool" where
  "spec_transition_allowed current new =
     ((current, new) \<in> set (zip statusChain (tl statusChain)) \<or>
      (new = ''cancelled'' \<and> current \<in> set statusChain \<and> current \<noteq> ''delivered''))"

definition dbStatuses :: "string list" where
  "dbStatuses = statusChain @ [''cancelled'']"




section \<open>Sample data\<close>

text \<open>
  A small store on which the operations are run: one product, an order awaiting its QR
  payment and an order paid on delivery, each with one line of two cases.
\<close>

definition demoProduct :: product where
  "demoProduct = \<lparr>p_id = 1, p_sku = ''P001'', p_name = ''Cola'', p_category = ''drinks'',
     p_unit = ''case'', p_price = 55, p_stock_cases = 10, p_image_url = [], p_is_active = True\<rparr>"

definition demoQrphOrder :: order_row where
  "demoQrphOrder = \<lparr>o_id = 7, o_order_code = ''ORD-1'', o_user_id = ''u1'',
     o_customer_name = ''Ana'', o_contact = ''0917'', o_address = ''Quezon City'',
     o_subtotal = 110, o_delivery_fee = 60, o_total = 170, o_status = ''pending_payment'',
     o_payment_status = ''pending'', o_payment_provider = Some ''paymongo'',
     o_payment_method = ''QRPH'', o_paymongo_checkout_session_id = Some ''cs_1'',
     o_paymongo_payment_id = None, o_paid_at = None\<rparr>"

definition demoCodOrder :: order_row where
  "demoCodOrder = \<lparr>o_id = 8, o_order_code = ''ORD-2'', o_user_id = ''u1'',
     o_customer_name = ''Ana'', o_contact = ''0917'', o_address = ''Quezon City'',
     o_subtotal = 110, o_delivery_fee = 60, o_total = 170, o_status = ''order_placed'',
     o_payment_status = ''pending'', o_payment_provider = None,
     o_payment_method = ''Cash on Delivery'', o_paymongo_checkout_session_id = None,
     o_paymongo_payment_id = None, o_paid_at = None\<rparr>"

definition demoItem :: "nat \<Rightarrow> order_item" where
  "demoItem oid = \<lparr>i_product_id = Some 1, i_sku = ''P001'', i_name = ''Cola'',
     i_category = ''drinks'', i_unit = ''case'', i_image_url = [], i_unit_price = 55,
     i_qty = 2, i_line_total = 110, i_order_id = oid\<rparr>"

definition demoPayment :: "nat \<Rightarrow> payment_row" where
  "demoPayment oid = \<lparr>pay_order_id = oid, pay_provider = ''paymongo'', pay_status = ''pending'',
     pay_amount = 170, pay_currency = ''PHP'', pay_provider_event_id = None,
     pay_provider_checkout_session_id = None, pay_provider_payment_id = None,
     pay_raw_payload = None\<rparr>"

definition demoStore :: store where
  "demoStore = \<lparr>products = [demoProduct],
     orders = [demoQrphOrder, demoCodOrder],
     order_items = [demoItem 7, demoItem 8],
     order_status_events =
       [\<lparr>e_order_id = 7, e_status = Some ''pending_payment'',
         e_note = ''Order created. Awaiting QRPH payment.'', e_changed_by = None\<rparr>,
        \<lparr>e_order_id = 8, e_status = Some ''order_placed'',
         e_note = ''Order created from web checkout.'', e_changed_by = None\<rparr>],
     payments = [demoPayment 7, demoPayment 8],
     next_id = 9\<rparr>"

definition demoEvent :: webhook_args where
  "demoEvent = \<lparr>orderCode = Some ''ORD-1'', checkoutSessionId = Some ''cs_1'',
     paymentId = Some ''pay_1'', eventId = ''evt_1'', rawPayload = ''{}'',
     now = ''2025-04-14T00:00:00.000Z''\<rparr>"

definition demoStaff :: profile where
  "demoStaff = \<lparr>user_id = ''u9'', role = ''staff''\<rparr>"

definition demoTransitStore :: store where
  "demoTransitStore = demoStore\<lparr>orders :=
     [demoQrphOrder\<lparr>o_status := ''in_transit'', o_payment_status := ''paid''\<rparr>, demoCodOrder]\<rparr>"

definition demoLateEvent :: webhook_args where
  "demoLateEvent = demoEvent\<lparr>eventId := ''evt_2''\<rparr>"

text \<open>
  A gateway that always opens a session, a customer, a cart of two cases of the sample
  product in which the client has written a price of its own, a product given away
  for free, and a cart asking for more than the stock.
\<close>

definition demoGateway :: gateway where
  "demoGateway code lineItems =
     Inr (Some \<lparr>ck_id = Some (''cs_'' @ code), ck_checkout_url = Some (''https://checkout.test/'' @ code)\<rparr>)"

definition demoCustomer :: profile where
  "demoCustomer = \<lparr>user_id = ''u1'', role = ''customer''\<rparr>"

definition demoPayload :: order_payload where
  "demoPayload = \<lparr>customerName = ''Ana'', contact = ''0917'', address = ''Quezon City'',
     paymentMethod = ''Cash on Delivery'',
     items = [\<lparr>productId = ''P001'', qty = 2, price = Some 1\<rparr>],
     clientTotal = Some 2\<rparr>"

definition demoFreeProduct :: product where
  "demoFreeProduct = \<lparr>p_id = 2, p_sku = ''P000'', p_name = ''Sample pack'', p_category = ''promo'',
     p_unit = ''case'', p_price = 0, p_stock_cases = 5, p_image_url = [], p_is_active = True\<rparr>"

definition demoFreeStore :: store where
  "demoFreeStore = demoStore\<lparr>products := [demoProduct, demoFreeProduct]\<rparr>"

definition demoFreePayload :: order_payload where
  "demoFreePayload = demoPayload\<lparr>items := [\<lparr>productId = ''P000'', qty = 1, price = None\<rparr>]\<rparr>"

definition demoChecked :: checked_order where
  "demoChecked = \<lparr>c_user_id = ''u1'', c_customerName = ''Ana'', c_contact = ''0917'',
     c_address = ''Quezon City'', c_paymentMethod = ''Cash on Delivery'',
     c_itemRows = [itemRowOf demoProduct 55 2 110], c_subtotal = 110\<rparr>"

definition demoNewOrder :: order_row where
  "demoNewOrder = \<lparr>o_id = 9, o_order_code = ''ORD-3'', o_user_id = ''u1'',
     o_customer_name = ''Ana'', o_contact = ''0917'', o_address = ''Quezon City'',
     o_subtotal = 110, o_delivery_fee = 60, o_total = 170, o_status = ''order_placed'',
     o_payment_status = ''pending'', o_payment_provider = None,
     o_payment_method = ''Cash on Delivery'', o_paymongo_checkout_session_id = None,
     o_paymongo_payment_id = None, o_paid_at = None\<rparr>"

definition demoLargePayload :: order_payload where
  "demoLargePayload = demoPayload\<lparr>items :=
     [\<lparr>productId = ''P001'', qty = 6, price = None\<rparr>, \<lparr>productId = '' P001 '', qty = 5, price = None\<rparr>]\<rparr>"

text \<open>
  The sample store after the paid event \<open>evt_1\<close> for \<open>ORD-1\<close>; and after a second
  paid event \<open>evt_2\<close> for the same order (the gateway sends one for the payment and
  one for the checkout session, and the handler accepts both) and after staff have marked
  the order delivered.
\<close>

definition demoPaidStore :: store where
  "demoPaidStore = demoStore\<lparr>products := [demoProduct\<lparr>p_stock_cases := 8\<rparr>],
     orders :=
       [demoQrphOrder\<lparr>o_status := ''order_placed'', o_payment_status := ''paid'',
          o_paymongo_payment_id := Some ''pay_1'',
          o_paid_at := Some ''2025-04-14T00:00:00.000Z''\<rparr>,
        demoCodOrder],
     order_status_events := order_status_events demoStore @
       [\<lparr>e_order_id = 7, e_status = Some ''order_placed'',
         e_note = ''QRPH payment confirmed via PayMongo webhook. Stock deducted.'',
         e_changed_by = None\<rparr>,
        \<lparr>e_order_id = 7, e_status = Some ''order_placed'',
         e_note = ''QRPH payment confirmed via PayMongo webhook.'', e_changed_by = None\<rparr>],
     payments :=
       [(demoPayment 7)\<lparr>pay_status := ''paid'', pay_provider_event_id := Some ''evt_1'',
          pay_provider_checkout_session_id := Some ''cs_1'',
          pay_provider_payment_id := Some ''pay_1'', pay_raw_payload := Some ''{}''\<rparr>,
        demoPayment 8]\<rparr>"

definition demoRedeliveryStore :: store where
  "demoRedeliveryStore = demoPaidStore\<lparr>
     orders :=
       [demoQrphOrder\<lparr>o_status := ''delivered'', o_payment_status := ''paid'',
          o_paymongo_payment_id := Some ''pay_1'',
          o_paid_at := Some ''2025-04-14T00:00:00.000Z''\<rparr>,
        demoCodOrder],
     order_status_events := order_status_events demoPaidStore @
       [\<lparr>e_order_id = 7, e_status = Some ''order_placed'',
         e_note = ''QRPH payment confirmed via PayMongo webhook.'', e_changed_by = None\<rparr>,
        \<lparr>e_order_id = 7, e_status = Some ''delivered'',
         e_note = ''Status updated to Delivered by staff.'', e_changed_by = Some ''u9''\<rparr>],
     payments :=
       [(demoPayment 7)\<lparr>pay_status := ''paid'', pay_provider_event_id := Some ''evt_2'',
          pay_provider_checkout_session_id := Some ''cs_1'',
          pay_provider_payment_id := Some ''pay_1'', pay_raw_payload := Some ''{}''\<rparr>,
        demoPayment 8]\<rparr>"

text \<open>
  A second product, and the sample store with both products where the order \<open>ORD-1\<close>
  has three lines: six cases and seven cases of the first product, of which ten are in
  stock, and one case of the second. A cart that names the first product twice, once with
  blanks around the SKU, and the second product once.
\<close>

definition demoSecondProduct :: product where
  "demoSecondProduct = \<lparr>p_id = 2, p_sku = ''P002'', p_name = ''Water'', p_category = ''drinks'',
     p_unit = ''case'', p_price = 120, p_stock_cases = 5, p_image_url = [], p_is_active = True\<rparr>"

definition demoBulkStore :: store where
  "demoBulkStore = demoStore\<lparr>products := [demoProduct, demoSecondProduct],
     order_items :=
       [(demoItem 7)\<lparr>i_qty := 6\<rparr>,
        (demoItem 7)\<lparr>i_product_id := Some 2, i_sku := ''P002'', i_name := ''Water'',
                      i_unit_price := 120, i_qty := 1\<rparr>,
        (demoItem 7)\<lparr>i_qty := 7\<rparr>,
        demoItem 8]\<rparr>"

definition demoMixedPayload :: order_payload where
  "demoMixedPayload = demoPayload\<lparr>items :=
     [\<lparr>productId = ''P001'', qty = 2, price = Some 1\<rparr>,
      \<lparr>productId = ''P002'', qty = 1, price = None\<rparr>,
      \<lparr>productId = '' P001 '', qty = 3, price = Some 9\<rparr>]\<rparr>"

text \<open>
  The order that this cart makes in that store, and a gateway that is down.
\<close>

definition demoMixedOrder :: order_row where
  "demoMixedOrder = demoNewOrder\<lparr>o_subtotal := 395, o_delivery_fee := 60, o_total := 455\<rparr>"

definition demoFailingGateway :: gateway where
  "demoFailingGateway code lineItems = Inl (Error (Some 502) ''PayMongo request failed.'')"

section \<open>Unfolding the model on concrete data\<close>

lemmas demo_defs = demoProduct_def demoQrphOrder_def demoCodOrder_def demoItem_def demoPayment_def
  demoStore_def demoEvent_def demoStaff_def demoTransitStore_def demoLateEvent_def

lemmas lifecycle_defs = markOrderPaidFromWebhook_def webhookOrder_def findOrderByCode_def
  findOrderByCheckoutSessionId_def hasOrderStatusEventNote_def deductStockForOrder_def
  deductStockItem_def validItem_def STOCK_MARKER_NOTE_def patchRows_def truthy_def orElse_def
  orNull_def Let_def

lemmas update_defs = updateOrderStatus_def patchRows_def Let_def

lemmas string_defs = trim_def isWhitespace_def toUpperCase_def toLowerCase_def caseTable_def
  isQrphMethod_def uiStatusToDbStatus_def uiStatusMap_def toUiStatus_def dbStatusMap_def
  lookupProperty_def objectPrototype_def jsTruthy_def jsToString_def jsonProperty_def

lemmas create_defs = createOrder_def checkOrder_def persistOrder_def getProductsBySkus_def
  escapeCsvValues_def productBySku_def deliveryFee_def toCentavos_def patchRows_def truthy_def
  orNull_def Let_def withOrderId_def item_row.extend_def orderHeader_def itemRowOf_def

lemmas demo2_defs = demoGateway_def demoCustomer_def demoPayload_def demoFreeProduct_def
  demoFreeStore_def demoFreePayload_def

lemmas demo3_defs = demoChecked_def demoNewOrder_def demoLargePayload_def

lemmas demo4_defs = demoPaidStore_def demoRedeliveryStore_def demoSecondProduct_def demoBulkStore_def
  demoMixedPayload_def demoMixedOrder_def demoFailingGateway_def

lemmas verify_defs = verifyPaymongoWebhookSignature_def sigCandidates_def Let_def
  parsePaymongoSignature_def parsePart_def trim_def isWhitespace_def demoHmac_def

section \<open>Frame lemmas\<close>

lemma patchRows_selected:
  "x \<in> set rows \<Longrightarrow> sel x \<Longrightarrow> upd x \<in> set (patchRows sel upd rows)"
  by (induction rows) (auto simp: patchRows_def)

lemma patchRows_cases:
  assumes "y \<in> set (patchRows sel upd rows)"
  obtains x where "x \<in> set rows" "sel x" "y = upd x" | "y \<in> set rows" "\<not> sel y"
  using assms by (auto simp: patchRows_def split: if_splits)

lemma find_patchRows_same:
  "find sel (patchRows sel upd rows) = map_option upd (find sel rows)" if "\<And>r. sel r \<Longrightarrow> sel (upd r)"
  using that by (induction rows) (auto simp: patchRows_def)

lemma deductStockItem_frame:
  "orders (deductStockItem s i) = orders s"
  "payments (deductStockItem s i) = payments s"
  "order_items (deductStockItem s i) = order_items s"
  "order_status_events (deductStockItem s i) = order_status_events s"
  "next_id (deductStockItem s i) = next_id s"
  by (simp_all add: deductStockItem_def Let_def split: option.splits)

lemma foldl_deductStockItem_frame:
  "orders (foldl deductStockItem s xs) = orders s \<and>
   payments (foldl deductStockItem s xs) = payments s \<and>
   order_items (foldl deductStockItem s xs) = order_items s \<and>
   order_status_events (foldl deductStockItem s xs) = order_status_events s \<and>
   next_id (foldl deductStockItem s xs) = next_id s"
  by (induction xs arbitrary: s) (simp_all add: deductStockItem_frame)

lemma deductStockForOrder_frame:
  "orders (deductStockForOrder s oid) = orders s"
  "payments (deductStockForOrder s oid) = payments s"
  "order_items (deductStockForOrder s oid) = order_items s"
  "order_status_events (deductStockForOrder s oid) = order_status_events s"
  "next_id (deductStockForOrder s oid) = next_id s"
  by (simp_all add: deductStockForOrder_def Let_def foldl_deductStockItem_frame)

lemma webhookOrder_in_orders:
  assumes "webhookOrder s a = Some order"
  shows "order \<in> set (orders s)"
  using assms
  by (auto simp: webhookOrder_def findOrderByCode_def findOrderByCheckoutSessionId_def
      find_Some_iff split: option.splits if_splits)

lemma markOrderPaid_payments:
  assumes "filter (\<lambda>p. pay_provider_event_id p = Some (eventId a)) (payments s) = []"
      and "webhookOrder s a = Some order"
  shows "payments (fst (markOrderPaidFromWebhook s a)) =
           patchRows (\<lambda>p. pay_order_id p = o_id order)
             (\<lambda>p. p\<lparr>pay_status := ''paid'',
                     pay_provider_event_id := Some (eventId a),
                     pay_provider_checkout_session_id := orNull (checkoutSessionId a),
                     pay_provider_payment_id := orNull (paymentId a),
                     pay_raw_payload := Some (rawPayload a)\<rparr>)
             (payments s)"
  using assms
  by (simp add: markOrderPaidFromWebhook_def Let_def deductStockForOrder_frame)

lemma deductStockItem_orders_update:
  "deductStockItem (s\<lparr>orders := X\<rparr>) i = (deductStockItem s i)\<lparr>orders := X\<rparr>"
  by (simp add: deductStockItem_def Let_def split: option.splits)

lemma foldl_deductStockItem_orders_update:
  "foldl deductStockItem (s\<lparr>orders := X\<rparr>) xs = (foldl deductStockItem s xs)\<lparr>orders := X\<rparr>"
  by (induction xs arbitrary: s) (simp_all add: deductStockItem_orders_update)

lemma deductStockForOrder_orders_update:
  "products (deductStockForOrder (s\<lparr>orders := X\<rparr>) oid) = products (deductStockForOrder s oid)"
  by (simp add: deductStockForOrder_def Let_def foldl_deductStockItem_orders_update)

lemma markOrderPaid_marker_guard:
  assumes "webhookOrder s a = Some order"
      and "hasOrderStatusEventNote s (o_id order) STOCK_MARKER_NOTE"
  shows "products (fst (markOrderPaidFromWebhook s a)) = products s"
  using assms
  by (simp add: markOrderPaidFromWebhook_def Let_def hasOrderStatusEventNote_def)

lemma markOrderPaid_first_call:
  assumes none: "filter (\<lambda>p. pay_provider_event_id p = Some (eventId a)) (payments s) = []"
      and ord: "webhookOrder s a = Some order"
  shows "hasOrderStatusEventNote (fst (markOrderPaidFromWebhook s a)) (o_id order) STOCK_MARKER_NOTE \<and>
         products (fst (markOrderPaidFromWebhook s a)) =
           (if hasOrderStatusEventNote s (o_id order) STOCK_MARKER_NOTE then products s
            else products (deductStockForOrder s (o_id order)))"
  using assms
  by (simp add: markOrderPaidFromWebhook_def Let_def hasOrderStatusEventNote_def
      deductStockForOrder_frame deductStockForOrder_orders_update)

section \<open>Payment confirmation and redelivered events\<close>

text \<open>
  A call that carries the event identifier the order's Payment row records is a duplicate
  and changes nothing; so a delivery repeated at once is harmless. When the first call was
  not itself a duplicate, it has recorded the stock marker and has deducted the order's
  stock once, or not at all when the marker was already there.
\<close>

lemma markOrderPaid_immediate_redelivery:
  assumes rows: "paymentRowsPresent s"
      and first: "markOrderPaidFromWebhook s a = (s1, Inr d)"
      and same: "eventId a' = eventId a"
  shows "markOrderPaidFromWebhook s1 a' = (s1, Inr True) \<and>
         (\<not> d \<longrightarrow>
            (\<exists>order. webhookOrder s a = Some order \<and>
               hasOrderStatusEventNote s1 (o_id order) STOCK_MARKER_NOTE \<and>
               products s1 =
                 (if hasOrderStatusEventNote s (o_id order) STOCK_MARKER_NOTE then products s
                  else products (deductStockForOrder s (o_id order)))))"
proof -
  have dup: "markOrderPaidFromWebhook s1 a' = (s1, Inr True)"
  proof (cases "filter (\<lambda>p. pay_provider_event_id p = Some (eventId a)) (payments s) = []")
    case False
    with first have "s1 = s"
      by (simp add: markOrderPaidFromWebhook_def Let_def)
    with False same show ?thesis
      by (simp add: markOrderPaidFromWebhook_def Let_def)
  next
    case True
    with first obtain order where ord: "webhookOrder s a = Some order"
      by (auto simp: markOrderPaidFromWebhook_def Let_def split: option.splits)
    from webhookOrder_in_orders [OF ord] rows obtain p
      where p: "p \<in> set (payments s)" "pay_order_id p = o_id order"
      by (auto simp: paymentRowsPresent_def)
    have "payments s1 = patchRows (\<lambda>p. pay_order_id p = o_id order)
               (\<lambda>p. p\<lparr>pay_status := ''paid'',
                       pay_provider_event_id := Some (eventId a),
                       pay_provider_checkout_session_id := orNull (checkoutSessionId a),
                       pay_provider_payment_id := orNull (paymentId a),
                       pay_raw_payload := Some (rawPayload a)\<rparr>)
               (payments s)"
      using markOrderPaid_payments [OF True ord] first by simp
    with patchRows_selected [OF p(1), of "\<lambda>p. pay_order_id p = o_id order"] p(2)
    have "\<exists>q \<in> set (payments s1). pay_provider_event_id q = Some (eventId a)"
      by (intro bexI [where x = "p\<lparr>pay_status := ''paid'',
                       pay_provider_event_id := Some (eventId a),
                       pay_provider_checkout_session_id := orNull (checkoutSessionId a),
                       pay_provider_payment_id := orNull (paymentId a),
                       pay_raw_payload := Some (rawPayload a)\<rparr>"]) simp_all
    then have "filter (\<lambda>p. pay_provider_event_id p = Some (eventId a')) (payments s1) \<noteq> []"
      using same by (simp add: filter_empty_conv)
    then show ?thesis
      by (simp add: markOrderPaidFromWebhook_def Let_def)
  qed
  have once: "\<exists>order. webhookOrder s a = Some order \<and>
               hasOrderStatusEventNote s1 (o_id order) STOCK_MARKER_NOTE \<and>
               products s1 =
                 (if hasOrderStatusEventNote s (o_id order) STOCK_MARKER_NOTE then products s
                  else products (deductStockForOrder s (o_id order)))"
    if fresh: "\<not> d"
  proof -
    from first fresh
    have none: "filter (\<lambda>p. pay_provider_event_id p = Some (eventId a)) (payments s) = []"
      by (cases "filter (\<lambda>p. pay_provider_event_id p = Some (eventId a)) (payments s) = []")
         (simp_all add: markOrderPaidFromWebhook_def Let_def)
    with first obtain order where ord: "webhookOrder s a = Some order"
      by (auto simp: markOrderPaidFromWebhook_def Let_def split: option.splits)
    from markOrderPaid_first_call [OF none ord] first ord show ?thesis
      by simp
  qed
  from dup once show ?thesis by blast
qed

text \<open>
  Claim C1 does not hold of the code for every redelivery. The Payment row keeps one event
  identifier, and every fresh event for the order overwrites it (lines 887-898). On the
  sample store \<open>evt_1\<close> is confirmed, \<open>evt_2\<close> for the same order is confirmed, staff
  mark the order delivered, and \<open>evt_1\<close> is delivered again: the call is not taken for
  a duplicate, the order goes back to \<open>order_placed\<close>, the Payment row is rewritten and
  a seventh audit event is appended. The stock, guarded by the marker note, stays at
  eight.
\<close>

theorem markOrderPaid_redelivery_reprocessed:
  "markOrderPaidFromWebhook demoStore demoEvent = (demoPaidStore, Inr False) \<and>
   markOrderPaidFromWebhook demoPaidStore demoEvent = (demoPaidStore, Inr True) \<and>
   eventId demoLateEvent \<noteq> eventId demoEvent \<and>
   fst (updateOrderStatus (fst (markOrderPaidFromWebhook demoPaidStore demoLateEvent))
          ''ORD-1'' ''Delivered'' demoStaff) = demoRedeliveryStore \<and>
   map o_status (orders demoRedeliveryStore) = [''delivered'', ''order_placed''] \<and>
   map pay_provider_event_id (payments demoRedeliveryStore) = [Some ''evt_2'', None] \<and>
   map p_stock_cases (products demoRedeliveryStore) = [8] \<and>
   length (order_status_events demoRedeliveryStore) = 6 \<and>
   snd (markOrderPaidFromWebhook demoRedeliveryStore demoEvent) = Inr False \<and>
   fst (markOrderPaidFromWebhook demoRedeliveryStore demoEvent) \<noteq> demoRedeliveryStore \<and>
   map o_status (orders (fst (markOrderPaidFromWebhook demoRedeliveryStore demoEvent))) =
     [''order_placed'', ''order_placed''] \<and>
   map pay_provider_event_id (payments (fst (markOrderPaidFromWebhook demoRedeliveryStore demoEvent))) =
     [Some ''evt_1'', None] \<and>
   map p_stock_cases (products (fst (markOrderPaidFromWebhook demoRedeliveryStore demoEvent))) = [8] \<and>
   length (order_status_events (fst (markOrderPaidFromWebhook demoRedeliveryStore demoEvent))) = 7"
proof -
  have first: "markOrderPaidFromWebhook demoStore demoEvent = (demoPaidStore, Inr False)"
    by (simp add: demo4_defs demo_defs lifecycle_defs)
  have again: "markOrderPaidFromWebhook demoPaidStore demoEvent = (demoPaidStore, Inr True)"
    by (simp add: demo4_defs demo_defs lifecycle_defs)
  have ids: "eventId demoLateEvent \<noteq> eventId demoEvent"
    by (simp add: demo_defs)
  have second: "fst (markOrderPaidFromWebhook demoPaidStore demoLateEvent) =
      demoPaidStore\<lparr>order_status_events := order_status_events demoPaidStore @
         [\<lparr>e_order_id = 7, e_status = Some ''order_placed'',
           e_note = ''QRPH payment confirmed via PayMongo webhook.'', e_changed_by = None\<rparr>],
       payments :=
         [(demoPayment 7)\<lparr>pay_status := ''paid'', pay_provider_event_id := Some ''evt_2'',
            pay_provider_checkout_session_id := Some ''cs_1'',
            pay_provider_payment_id := Some ''pay_1'', pay_raw_payload := Some ''{}''\<rparr>,
          demoPayment 8]\<rparr>"
    by (simp add: demo4_defs demo_defs lifecycle_defs)
  have staff: "fst (updateOrderStatus (fst (markOrderPaidFromWebhook demoPaidStore demoLateEvent))
          ''ORD-1'' ''Delivered'' demoStaff) = demoRedeliveryStore"
    unfolding second by (simp add: demo4_defs demo_defs update_defs string_defs)
  have before: "map o_status (orders demoRedeliveryStore) = [''delivered'', ''order_placed'']"
    "map pay_provider_event_id (payments demoRedeliveryStore) = [Some ''evt_2'', None]"
    "map p_stock_cases (products demoRedeliveryStore) = [8]"
    "length (order_status_events demoRedeliveryStore) = 6"
    by (simp_all add: demo4_defs demo_defs)
  have redelivered: "markOrderPaidFromWebhook demoRedeliveryStore demoEvent =
      (demoRedeliveryStore\<lparr>
         orders :=
           [demoQrphOrder\<lparr>o_status := ''order_placed'', o_payment_status := ''paid'',
              o_paymongo_payment_id := Some ''pay_1'',
              o_paid_at := Some ''2025-04-14T00:00:00.000Z''\<rparr>,
            demoCodOrder],
         order_status_events := order_status_events demoRedeliveryStore @
           [\<lparr>e_order_id = 7, e_status = Some ''order_placed'',
             e_note = ''QRPH payment confirmed via PayMongo webhook.'', e_changed_by = None\<rparr>],
         payments :=
           [(demoPayment 7)\<lparr>pay_status := ''paid'', pay_provider_event_id := Some ''evt_1'',
              pay_provider_checkout_session_id := Some ''cs_1'',
              pay_provider_payment_id := Some ''pay_1'', pay_raw_payload := Some ''{}''\<rparr>,
            demoPayment 8]\<rparr>, Inr False)"
    by (simp add: demo4_defs demo_defs lifecycle_defs)
  have after: "snd (markOrderPaidFromWebhook demoRedeliveryStore demoEvent) = Inr False"
    "fst (markOrderPaidFromWebhook demoRedeliveryStore demoEvent) \<noteq> demoRedeliveryStore"
    "map o_status (orders (fst (markOrderPaidFromWebhook demoRedeliveryStore demoEvent))) =
       [''order_placed'', ''order_placed'']"
    "map pay_provider_event_id (payments (fst (markOrderPaidFromWebhook demoRedeliveryStore demoEvent))) =
       [Some ''evt_1'', None]"
    "map p_stock_cases (products (fst (markOrderPaidFromWebhook demoRedeliveryStore demoEvent))) = [8]"
    "length (order_status_events (fst (markOrderPaidFromWebhook demoRedeliveryStore demoEvent))) = 7"
    unfolding redelivered by (simp_all add: demo4_defs demo_defs)
  from first again ids staff before after show ?thesis by (intro conjI)
qed

section \<open>The transition guard\<close>

text \<open>
  Claim C2. For an order whose payment method is a QRPH method and whose payment status
  is not \<open>paid\<close> (read as the code reads it, without regard to letter case),
  \<^verbatim>\<open>updateOrderStatus\<close> answers every requested status other than \<open>pending_payment\<close>
  and \<open>cancelled\<close> with the error of status 409, and the store it leaves is the store it
  found: no status is written and no audit event is appended. A requested key that the
  label table only inherits is answered in the same way.
\<close>

theorem updateOrderStatus_unpaid_qrph_conflict:
  assumes "find (\<lambda>r. o_order_code r = code) (orders s) = Some order"
      and "isQrphMethod (o_payment_method order)"
      and "toLowerCase (o_payment_status order) \<noteq> ''paid''"
      and "uiStatusToDbStatus requested \<noteq> Str []"
      and "uiStatusToDbStatus requested \<noteq> Str ''pending_payment''"
      and "uiStatusToDbStatus requested \<noteq> Str ''cancelled''"
  shows "updateOrderStatus s code requested actor =
           (s, Inl (Error (Some 409) ''Cannot move QRPH order status until payment is marked paid.''))"
proof -
  have "jsTruthy (uiStatusToDbStatus requested)"
    using assms(4) by (cases "uiStatusToDbStatus requested") (simp_all add: jsTruthy_def)
  with assms show ?thesis
    by (simp add: updateOrderStatus_def Let_def)
qed

theorem updateOrderStatus_unpaid_qrph_conflict_witness:
  "find (\<lambda>r. o_order_code r = ''ORD-1'') (orders demoStore) = Some demoQrphOrder \<and>
   isQrphMethod (o_payment_method demoQrphOrder) \<and>
   toLowerCase (o_payment_status demoQrphOrder) \<noteq> ''paid'' \<and>
   uiStatusToDbStatus ''Preparing'' = Str ''preparing'' \<and>
   updateOrderStatus demoStore ''ORD-1'' ''Preparing'' demoStaff =
     (demoStore, Inl (Error (Some 409) ''Cannot move QRPH order status until payment is marked paid.'')) \<and>
   httpStatus (Error (Some 409) ''Cannot move QRPH order status until payment is marked paid.'') = 409"
proof -
  have a: "find (\<lambda>r. o_order_code r = ''ORD-1'') (orders demoStore) = Some demoQrphOrder"
    by (simp add: demo_defs)
  have b: "isQrphMethod (o_payment_method demoQrphOrder)"
    by (simp add: demo_defs string_defs)
  have c: "toLowerCase (o_payment_status demoQrphOrder) \<noteq> ''paid''"
    by (simp add: demo_defs string_defs)
  have d: "uiStatusToDbStatus ''Preparing'' = Str ''preparing''"
    by (simp add: string_defs)
  show ?thesis
    using a b c d updateOrderStatus_unpaid_qrph_conflict [OF a b c, of "''Preparing''" demoStaff]
    by (simp add: httpStatus_def)
qed

section \<open>Which statuses a status update persists\<close>

lemma uiStatusMap_range: "(k, v) \<in> set uiStatusMap \<Longrightarrow> v \<in> set dbStatuses"
  unfolding uiStatusMap_def dbStatuses_def statusChain_def
  by (elim set_ConsD [elim_format]) auto

lemma objectPrototype_not_Str: "map_of objectPrototype k \<noteq> Some (Str v)"
proof
  assume "map_of objectPrototype k = Some (Str v)"
  then have "(k, Str v) \<in> set objectPrototype" by (rule map_of_SomeD)
  then show False by (simp add: objectPrototype_def)
qed

lemma uiStatusToDbStatus_label:
  assumes "uiStatusToDbStatus requested = Str v" and "v \<noteq> []"
  shows "v \<in> set dbStatuses"
proof (cases "map_of uiStatusMap (trim requested)")
  case None
  with assms objectPrototype_not_Str [of "trim requested"] show ?thesis
    by (auto simp: uiStatusToDbStatus_def lookupProperty_def split: option.splits if_splits)
next
  case (Some w)
  with assms have "w = v"
    by (auto simp: uiStatusToDbStatus_def lookupProperty_def split: if_splits)
  with Some show ?thesis
    using uiStatusMap_range [OF map_of_SomeD] by blast
qed

text \<open>The outcome of a call that names a status of the label table, for an order that exists.\<close>

lemma updateOrderStatus_label:
  assumes "uiStatusToDbStatus requested = Str v" and "v \<noteq> []"
      and "find (\<lambda>r. o_order_code r = code) (orders s) = Some order"
  shows "updateOrderStatus s code requested actor =
     (if isQrphMethod (o_payment_method order) \<and>
         toLowerCase (o_payment_status order) \<noteq> ''paid'' \<and>
         v \<notin> {''pending_payment'', ''cancelled''}
      then (s, Inl (Error (Some 409)
              ''Cannot move QRPH order status until payment is marked paid.''))
      else (s\<lparr>orders := patchRows (\<lambda>r. o_order_code r = code) (\<lambda>r. r\<lparr>o_status := v\<rparr>) (orders s),
              order_status_events := order_status_events s @
                [\<lparr>e_order_id = o_id order,
                  e_status = Some v,
                  e_note = ''Status updated to '' @ jsToString (toUiStatus (Str v)) @
                           '' by '' @ role actor @ ''.'',
                  e_changed_by = Some (user_id actor)\<rparr>]\<rparr>,
            Inr (find (\<lambda>r. o_order_code r = code)
                   (patchRows (\<lambda>r. o_order_code r = code) (\<lambda>r. r\<lparr>o_status := v\<rparr>) (orders s)))))"
  using assms
  by (simp add: updateOrderStatus_def Let_def jsTruthy_def jsonProperty_def)

text \<open>
  Which calls succeed: those that name a status the lookup finds, for an order that exists
  and that the payment guard lets through. The order's current status is not among the
  conditions.
\<close>

lemma updateOrderStatus_succeeds_iff:
  "(\<exists>s1 res. updateOrderStatus s code requested actor = (s1, Inr res)) \<longleftrightarrow>
     jsTruthy (uiStatusToDbStatus requested) \<and>
     (\<exists>order. findOrderByCode s code = Some order \<and>
        \<not> (isQrphMethod (o_payment_method order) \<and>
           toLowerCase (o_payment_status order) \<noteq> ''paid'' \<and>
           uiStatusToDbStatus requested \<notin> {Str ''pending_payment'', Str ''cancelled''}))"
proof (cases "jsTruthy (uiStatusToDbStatus requested)")
  case False
  then show ?thesis by (simp add: updateOrderStatus_def Let_def)
next
  case True
  show ?thesis
  proof (cases "find (\<lambda>r. o_order_code r = code) (orders s)")
    case None
    with True show ?thesis by (simp add: updateOrderStatus_def Let_def findOrderByCode_def)
  next
    case (Some order)
    with True show ?thesis
      by (cases "isQrphMethod (o_payment_method order) \<and>
           toLowerCase (o_payment_status order) \<noteq> ''paid'' \<and>
           uiStatusToDbStatus requested \<notin> {Str ''pending_payment'', Str ''cancelled''}")
         (simp_all add: updateOrderStatus_def Let_def findOrderByCode_def)
  qed
qed

text \<open>
  A key that the label table only inherits passes the check for an invalid status: the
  call succeeds, writes no status column, and appends an audit event without a status.
\<close>

lemma updateOrderStatus_inherited_key:
  "uiStatusToDbStatus ''constructor'' = Fn ''Object'' \<and>
   (\<exists>res. snd (updateOrderStatus demoStore ''ORD-2'' ''constructor'' demoStaff) = Inr res) \<and>
   orders (fst (updateOrderStatus demoStore ''ORD-2'' ''constructor'' demoStaff)) = orders demoStore \<and>
   drop 2 (order_status_events (fst (updateOrderStatus demoStore ''ORD-2'' ''constructor'' demoStaff))) =
     [\<lparr>e_order_id = 8, e_status = None,
       e_note = ''Status updated to function Object() { [native code] } by staff.'',
       e_changed_by = Some ''u9''\<rparr>]"
  by (simp add: update_defs demo_defs string_defs)

text \<open>
  Claim C3, as stated, fails: \<^verbatim>\<open>updateOrderStatus\<close> never reads the order's current
  status. On the sample store the order \<open>ORD-2\<close>, paid on delivery and in
  \<open>order_placed\<close>, is moved to \<open>delivered\<close> in one call, which the chain of the
  specification does not allow.
\<close>

theorem updateOrderStatus_skips_chain_counterexample:
  "findOrderByCode demoStore ''ORD-2'' = Some demoCodOrder \<and>
   o_status demoCodOrder = ''order_placed'' \<and>
   snd (updateOrderStatus demoStore ''ORD-2'' ''Delivered'' demoStaff) =
     Inr (Some (demoCodOrder\<lparr>o_status := ''delivered''\<rparr>)) \<and>
   findOrderByCode (fst (updateOrderStatus demoStore ''ORD-2'' ''Delivered'' demoStaff)) ''ORD-2'' =
     Some (demoCodOrder\<lparr>o_status := ''delivered''\<rparr>) \<and>
   \<not> spec_transition_allowed ''order_placed'' ''delivered''"
  by (simp add: update_defs demo_defs string_defs findOrderByCode_def
      spec_transition_allowed_def statusChain_def)

text \<open>
  Claim C3, amended. For an order that exists and a requested status that the label table
  lists, \<^verbatim>\<open>updateOrderStatus\<close> succeeds exactly when the payment guard allows it, that is,
  unless the order is an unpaid QRPH order and the status is neither \<open>pending_payment\<close>
  nor \<open>cancelled\<close>; the order's current status plays no part. When the call succeeds, the
  persisted status is the requested one, which is one of the seven lifecycle statuses: it
  is written on every order with the given code and on no other, and it is the status of
  the row the call returns.
\<close>

theorem updateOrderStatus_persists_requested:
  assumes label: "uiStatusToDbStatus requested = Str v" and valid: "v \<noteq> []"
      and ord: "findOrderByCode s code = Some order"
  shows "v \<in> set dbStatuses \<and>
         ((\<exists>s1 res. updateOrderStatus s code requested actor = (s1, Inr res)) \<longleftrightarrow>
            \<not> (isQrphMethod (o_payment_method order) \<and>
               toLowerCase (o_payment_status order) \<noteq> ''paid'' \<and>
               v \<notin> {''pending_payment'', ''cancelled''})) \<and>
         (\<forall>s1 res. updateOrderStatus s code requested actor = (s1, Inr res) \<longrightarrow>
            res = Some (order\<lparr>o_status := v\<rparr>) \<and>
            findOrderByCode s1 code = Some (order\<lparr>o_status := v\<rparr>) \<and>
            (\<forall>r \<in> set (orders s1). o_order_code r = code \<longrightarrow> o_status r = v) \<and>
            orders s1 =
              patchRows (\<lambda>r. o_order_code r = code) (\<lambda>r. r\<lparr>o_status := v\<rparr>) (orders s))"
proof -
  let ?blocked = "isQrphMethod (o_payment_method order) \<and>
               toLowerCase (o_payment_status order) \<noteq> ''paid'' \<and>
               v \<notin> {''pending_payment'', ''cancelled''}"
  let ?rows = "patchRows (\<lambda>r. o_order_code r = code) (\<lambda>r. r\<lparr>o_status := v\<rparr>) (orders s)"
  from ord have found: "find (\<lambda>r. o_order_code r = code) (orders s) = Some order"
    by (simp add: findOrderByCode_def)
  note run = updateOrderStatus_label [OF label valid found, of actor]
  have range: "v \<in> set dbStatuses"
    by (rule uiStatusToDbStatus_label [OF label valid])
  have succeeds: "(\<exists>s1 res. updateOrderStatus s code requested actor = (s1, Inr res)) \<longleftrightarrow> \<not> ?blocked"
  proof (cases ?blocked)
    case True
    then show ?thesis unfolding run by simp
  next
    case False
    then show ?thesis unfolding run by simp
  qed
  have first: "find (\<lambda>r. o_order_code r = code) ?rows = Some (order\<lparr>o_status := v\<rparr>)"
    by (simp add: find_patchRows_same found)
  have all: "\<forall>r \<in> set ?rows. o_order_code r = code \<longrightarrow> o_status r = v"
  proof (intro ballI impI)
    fix r assume "r \<in> set ?rows" and c: "o_order_code r = code"
    then show "o_status r = v"
      by (elim patchRows_cases) simp_all
  qed
  have persisted: "res = Some (order\<lparr>o_status := v\<rparr>) \<and>
            findOrderByCode s1 code = Some (order\<lparr>o_status := v\<rparr>) \<and>
            (\<forall>r \<in> set (orders s1). o_order_code r = code \<longrightarrow> o_status r = v) \<and>
            orders s1 = ?rows"
    if ok: "updateOrderStatus s code requested actor = (s1, Inr res)" for s1 res
  proof -
    from ok have nb: "\<not> ?blocked"
      unfolding run by (cases ?blocked) simp_all
    from ok nb have rows: "orders s1 = ?rows" and res: "res = find (\<lambda>r. o_order_code r = code) ?rows"
      unfolding run by auto
    from rows res first all show ?thesis
      by (simp add: findOrderByCode_def)
  qed
  from range succeeds persisted show ?thesis by blast
qed

theorem updateOrderStatus_persists_requested_witness:
  "uiStatusToDbStatus ''Delivered'' = Str ''delivered'' \<and>
   uiStatusToDbStatus ''Preparing'' = Str ''preparing'' \<and>
   findOrderByCode demoStore ''ORD-2'' = Some demoCodOrder \<and>
   o_status demoCodOrder = ''order_placed'' \<and>
   \<not> isQrphMethod (o_payment_method demoCodOrder) \<and>
   ''delivered'' \<in> set dbStatuses \<and>
   (\<exists>s1 res. updateOrderStatus demoStore ''ORD-2'' ''Delivered'' demoStaff = (s1, Inr res)) \<and>
   updateOrderStatus demoStore ''ORD-2'' ''Delivered'' demoStaff =
     (fst (updateOrderStatus demoStore ''ORD-2'' ''Delivered'' demoStaff),
      Inr (Some (demoCodOrder\<lparr>o_status := ''delivered''\<rparr>))) \<and>
   findOrderByCode (fst (updateOrderStatus demoStore ''ORD-2'' ''Delivered'' demoStaff)) ''ORD-2'' =
     Some (demoCodOrder\<lparr>o_status := ''delivered''\<rparr>) \<and>
   findOrderByCode demoRedeliveryStore ''ORD-1'' =
     Some (demoQrphOrder\<lparr>o_status := ''delivered'', o_payment_status := ''paid'',
          o_paymongo_payment_id := Some ''pay_1'',
          o_paid_at := Some ''2025-04-14T00:00:00.000Z''\<rparr>) \<and>
   (\<exists>s1 res. updateOrderStatus demoRedeliveryStore ''ORD-1'' ''Preparing'' demoStaff = (s1, Inr res)) \<and>
   map o_status (orders (fst (updateOrderStatus demoRedeliveryStore ''ORD-1'' ''Preparing'' demoStaff))) =
     [''preparing'', ''order_placed''] \<and>
   findOrderByCode demoStore ''ORD-1'' = Some demoQrphOrder \<and>
   isQrphMethod (o_payment_method demoQrphOrder) \<and>
   toLowerCase (o_payment_status demoQrphOrder) \<noteq> ''paid'' \<and>
   \<not> (\<exists>s1 res. updateOrderStatus demoStore ''ORD-1'' ''Preparing'' demoStaff = (s1, Inr res))"
proof -
  have l: "uiStatusToDbStatus ''Delivered'' = Str ''delivered''"
    "uiStatusToDbStatus ''Preparing'' = Str ''preparing''"
    by (simp_all add: string_defs)
  have ne: "''delivered'' \<noteq> []" "''preparing'' \<noteq> []" by simp_all
  have o2: "findOrderByCode demoStore ''ORD-2'' = Some demoCodOrder"
    and o1: "findOrderByCode demoStore ''ORD-1'' = Some demoQrphOrder"
    and o3: "findOrderByCode demoRedeliveryStore ''ORD-1'' =
     Some (demoQrphOrder\<lparr>o_status := ''delivered'', o_payment_status := ''paid'',
          o_paymongo_payment_id := Some ''pay_1'',
          o_paid_at := Some ''2025-04-14T00:00:00.000Z''\<rparr>)"
    by (simp_all add: findOrderByCode_def demo4_defs demo_defs)
  have f: "o_status demoCodOrder = ''order_placed''"
    "\<not> isQrphMethod (o_payment_method demoCodOrder)"
    "isQrphMethod (o_payment_method demoQrphOrder)"
    "toLowerCase (o_payment_status demoQrphOrder) \<noteq> ''paid''"
    by (simp_all add: demo_defs string_defs)
  note t2 = updateOrderStatus_persists_requested [OF l(1) ne(1) o2, of demoStaff]
  note t3 = updateOrderStatus_persists_requested [OF l(2) ne(2) o3, of demoStaff]
  note t1 = updateOrderStatus_persists_requested [OF l(2) ne(2) o1, of demoStaff]
  from t2 have r2: "''delivered'' \<in> set dbStatuses" by blast
  from t2 f(2) have e2: "\<exists>s1 res. updateOrderStatus demoStore ''ORD-2'' ''Delivered'' demoStaff = (s1, Inr res)"
    by blast
  then obtain s1 res where run2: "updateOrderStatus demoStore ''ORD-2'' ''Delivered'' demoStaff = (s1, Inr res)"
    by blast
  with t2 have p2: "res = Some (demoCodOrder\<lparr>o_status := ''delivered''\<rparr>)"
    "findOrderByCode s1 ''ORD-2'' = Some (demoCodOrder\<lparr>o_status := ''delivered''\<rparr>)"
    by blast+
  from run2 p2 have x2: "updateOrderStatus demoStore ''ORD-2'' ''Delivered'' demoStaff =
     (fst (updateOrderStatus demoStore ''ORD-2'' ''Delivered'' demoStaff),
      Inr (Some (demoCodOrder\<lparr>o_status := ''delivered''\<rparr>)))"
    "findOrderByCode (fst (updateOrderStatus demoStore ''ORD-2'' ''Delivered'' demoStaff)) ''ORD-2'' =
     Some (demoCodOrder\<lparr>o_status := ''delivered''\<rparr>)"
    by simp_all
  have paid: "toLowerCase ''paid'' = ''paid''" by (simp add: string_defs)
  from t3 paid have e3: "\<exists>s1 res. updateOrderStatus demoRedeliveryStore ''ORD-1'' ''Preparing'' demoStaff = (s1, Inr res)"
    by simp
  have m3: "map o_status (orders (fst (updateOrderStatus demoRedeliveryStore ''ORD-1'' ''Preparing'' demoStaff))) =
     [''preparing'', ''order_placed'']"
    by (simp add: update_defs demo4_defs demo_defs string_defs)
  from t1 f(3,4) have e1: "\<not> (\<exists>s1 res. updateOrderStatus demoStore ''ORD-1'' ''Preparing'' demoStaff = (s1, Inr res))"
    by simp
  from l o2 f(1,2) r2 e2 x2 o3 e3 m3 o1 f(3,4) e1 show ?thesis by (intro conjI)
qed

section \<open>A fresh webhook event resets the status\<close>

text \<open>
  Claim C10. A confirmation whose event identifier no Payment row has recorded, and whose
  order resolves, writes \<open>order_placed\<close> and \<open>paid\<close> on that order whatever its status
  was; the result is \<^verbatim>\<open>{duplicate: false}\<close>. On the sample data an order already
  \<open>in_transit\<close> is set back to \<open>order_placed\<close> by a second event.
\<close>

theorem markOrderPaid_resets_status:
  assumes fresh: "\<forall>p \<in> set (payments s). pay_provider_event_id p \<noteq> Some (eventId a)"
      and ord: "webhookOrder s a = Some order"
  shows "snd (markOrderPaidFromWebhook s a) = Inr False \<and>
         (\<exists>r \<in> set (orders (fst (markOrderPaidFromWebhook s a))). o_id r = o_id order) \<and>
         (\<forall>r \<in> set (orders (fst (markOrderPaidFromWebhook s a))). o_id r = o_id order \<longrightarrow>
            o_status r = ''order_placed'' \<and> o_payment_status r = ''paid'')"
proof -
  from fresh have none: "filter (\<lambda>p. pay_provider_event_id p = Some (eventId a)) (payments s) = []"
    by (simp add: filter_empty_conv)
  let ?upd = "\<lambda>r. r\<lparr>o_payment_status := ''paid'',
                                 o_status := ''order_placed'',
                                 o_paid_at := Some (now a),
                                 o_paymongo_checkout_session_id :=
                                   orNull (orElse (checkoutSessionId a)
                                     (o_paymongo_checkout_session_id order)),
                                 o_paymongo_payment_id := orNull (paymentId a)\<rparr>"
  have orders: "orders (fst (markOrderPaidFromWebhook s a)) =
      patchRows (\<lambda>r. o_id r = o_id order) ?upd (orders s)"
    using none ord by (simp add: markOrderPaidFromWebhook_def Let_def deductStockForOrder_frame)
  have res: "snd (markOrderPaidFromWebhook s a) = Inr False"
    using none ord by (simp add: markOrderPaidFromWebhook_def Let_def)
  from patchRows_selected [OF webhookOrder_in_orders [OF ord], of "\<lambda>r. o_id r = o_id order" ?upd]
  have ex: "\<exists>r \<in> set (orders (fst (markOrderPaidFromWebhook s a))). o_id r = o_id order"
    unfolding orders by (intro bexI [where x = "?upd order"]) simp_all
  have all: "\<forall>r \<in> set (orders (fst (markOrderPaidFromWebhook s a))). o_id r = o_id order \<longrightarrow>
            o_status r = ''order_placed'' \<and> o_payment_status r = ''paid''"
  proof (intro ballI impI)
    fix r assume "r \<in> set (orders (fst (markOrderPaidFromWebhook s a)))" and c: "o_id r = o_id order"
    then have "r \<in> set (patchRows (\<lambda>r. o_id r = o_id order) ?upd (orders s))"
      by (simp add: orders)
    then show "o_status r = ''order_placed'' \<and> o_payment_status r = ''paid''"
      using c by (elim patchRows_cases) simp_all
  qed
  from res ex all show ?thesis by blast
qed

theorem markOrderPaid_resets_status_witness:
  "map pay_provider_event_id (payments demoTransitStore) = [None, None] \<and>
   webhookOrder demoTransitStore demoLateEvent =
     Some (demoQrphOrder\<lparr>o_status := ''in_transit'', o_payment_status := ''paid''\<rparr>) \<and>
   snd (markOrderPaidFromWebhook demoTransitStore demoLateEvent) = Inr False \<and>
   map o_status (orders demoTransitStore) = [''in_transit'', ''order_placed''] \<and>
   map o_status (orders (fst (markOrderPaidFromWebhook demoTransitStore demoLateEvent))) =
     [''order_placed'', ''order_placed'']"
proof -
  have n: "map pay_provider_event_id (payments demoTransitStore) = [None, None]"
    by (simp add: demo_defs)
  have f: "\<forall>p \<in> set (payments demoTransitStore). pay_provider_event_id p \<noteq> Some (eventId demoLateEvent)"
    by (simp add: demo_defs)
  have w: "webhookOrder demoTransitStore demoLateEvent =
     Some (demoQrphOrder\<lparr>o_status := ''in_transit'', o_payment_status := ''paid''\<rparr>)"
    by (simp add: demo_defs lifecycle_defs)
  have b: "map o_status (orders demoTransitStore) = [''in_transit'', ''order_placed'']"
    by (simp add: demo_defs)
  have m: "map o_status (orders (fst (markOrderPaidFromWebhook demoTransitStore demoLateEvent))) =
     [''order_placed'', ''order_placed'']"
    by (simp add: demo_defs lifecycle_defs)
  from markOrderPaid_resets_status [OF f w]
  have r: "snd (markOrderPaidFromWebhook demoTransitStore demoLateEvent) = Inr False"
    by (elim conjE)
  from n w r b m show ?thesis by (intro conjI)
qed

section \<open>The stock floor\<close>

lemma find_patchRows_other:
  assumes "\<And>r. Q r \<Longrightarrow> \<not> P r" and "\<And>r. Q r \<Longrightarrow> \<not> P (f r)"
  shows "find P (patchRows Q f rows) = find P rows"
  using assms by (induction rows) (simp_all add: patchRows_def)

lemma find_patchRows_id:
  assumes "find (\<lambda>p. p_id p = pid) rows = Some p"
  shows "find (\<lambda>p. p_id p = pid) (patchRows (\<lambda>p. p_id p = pid) (\<lambda>p. p\<lparr>p_stock_cases := v\<rparr>) rows)
         = Some (p\<lparr>p_stock_cases := v\<rparr>)"
  using assms by (simp add: find_patchRows_same)

lemma deductStockItem_stock:
  assumes "i_product_id item = Some pid"
      and "find (\<lambda>p. p_id p = pid) (products s) = Some p"
  shows "find (\<lambda>p. p_id p = pid) (products (deductStockItem s item)) =
           Some (p\<lparr>p_stock_cases := max 0 (p_stock_cases p - i_qty item)\<rparr>)"
proof -
  from assms(2) have "p_id p = pid"
    by (auto simp: find_Some_iff)
  with assms show ?thesis
    by (simp add: deductStockItem_def Let_def find_patchRows_id)
qed

text \<open>A line of another product leaves the row of this product as it was.\<close>

lemma deductStockItem_other:
  assumes "i_product_id item \<noteq> Some pid"
  shows "find (\<lambda>p. p_id p = pid) (products (deductStockItem s item)) =
         find (\<lambda>p. p_id p = pid) (products s)"
proof (cases "i_product_id item")
  case None
  then show ?thesis by (simp add: deductStockItem_def)
next
  case (Some pid')
  with assms have ne: "pid' \<noteq> pid" by simp
  show ?thesis
  proof (cases "find (\<lambda>p. p_id p = pid') (products s)")
    case None
    with Some show ?thesis by (simp add: deductStockItem_def)
  next
    case found: (Some product)
    then have "p_id product = pid'" by (auto simp: find_Some_iff)
    with ne have other: "find (\<lambda>p. p_id p = pid)
        (patchRows (\<lambda>p. p_id p = p_id product) (\<lambda>p. p\<lparr>p_stock_cases := v\<rparr>) (products s)) =
        find (\<lambda>p. p_id p = pid) (products s)" for v
      by (intro find_patchRows_other) simp_all
    from Some found show ?thesis
      by (simp add: deductStockItem_def Let_def other)
  qed
qed

lemma max_floor_twice: "0 \<le> t \<Longrightarrow> max 0 (max 0 (a - q) - t) = max (0::rat) (a - (q + t))"
  by (simp add: max_def)

text \<open>
  The loop over lines of positive quantity: the row of a product ends with its stock
  lowered by the sum of the quantities of its lines, and floored at zero.
\<close>

lemma foldl_deductStockItem_stock:
  assumes "find (\<lambda>p. p_id p = pid) (products s) = Some p"
      and "\<forall>x \<in> set xs. 0 < i_qty x"
  shows "find (\<lambda>p. p_id p = pid) (products (foldl deductStockItem s xs)) =
           Some (if filter (\<lambda>i. i_product_id i = Some pid) xs = [] then p
                 else p\<lparr>p_stock_cases := max 0 (p_stock_cases p -
                        sum_list (map i_qty (filter (\<lambda>i. i_product_id i = Some pid) xs)))\<rparr>)"
  using assms
proof (induction xs arbitrary: s p)
  case Nil
  then show ?case by simp
next
  case (Cons x xs)
  let ?rest = "filter (\<lambda>i. i_product_id i = Some pid) xs"
  from Cons.prems(2) have pos: "\<forall>x \<in> set xs. 0 < i_qty x" and qx: "0 < i_qty x" by simp_all
  have nonneg: "0 \<le> sum_list (map i_qty ?rest)"
    by (rule sum_list_nonneg) (use pos in \<open>auto intro: less_imp_le\<close>)
  show ?case
  proof (cases "i_product_id x = Some pid")
    case True
    let ?p1 = "p\<lparr>p_stock_cases := max 0 (p_stock_cases p - i_qty x)\<rparr>"
    have step: "find (\<lambda>p. p_id p = pid) (products (deductStockItem s x)) = Some ?p1"
      by (rule deductStockItem_stock [OF True Cons.prems(1)])
    note ih = Cons.IH [OF step pos]
    show ?thesis
    proof (cases "?rest = []")
      case True
      with ih \<open>i_product_id x = Some pid\<close> show ?thesis by simp
    next
      case False
      with ih \<open>i_product_id x = Some pid\<close> nonneg show ?thesis
        by (simp add: max_floor_twice)
    qed
  next
    case False
    then have step: "find (\<lambda>p. p_id p = pid) (products (deductStockItem s x)) = Some p"
      using Cons.prems(1) by (simp add: deductStockItem_other)
    from Cons.IH [OF step pos] False show ?thesis by simp
  qed
qed

lemma validItem_lines:
  assumes "pid \<noteq> 0"
  shows "filter (\<lambda>i. i_product_id i = Some pid)
           (filter validItem (filter (\<lambda>i. i_order_id i = oid) rows)) =
         filter (\<lambda>i. i_order_id i = oid \<and> i_product_id i = Some pid \<and> 0 < i_qty i) rows"
  using assms by (induction rows) (auto simp: validItem_def)

lemma sum_positive_lines:
  assumes "\<forall>i \<in> set rows. P i \<longrightarrow> 0 \<le> i_qty i"
  shows "sum_list (map i_qty (filter (\<lambda>i. P i \<and> 0 < i_qty i) rows)) =
         sum_list (map i_qty (filter P rows))"
  using assms by (induction rows) auto

lemma deductStockItem_nonneg:
  assumes "\<forall>p \<in> set (products s). 0 \<le> p_stock_cases p"
  shows "\<forall>p \<in> set (products (deductStockItem s item)). 0 \<le> p_stock_cases p"
proof (cases "i_product_id item")
  case None
  with assms show ?thesis by (simp add: deductStockItem_def)
next
  case (Some pid)
  show ?thesis
  proof (cases "find (\<lambda>p. p_id p = pid) (products s)")
    case None
    with Some assms show ?thesis by (simp add: deductStockItem_def)
  next
    case found: (Some product)
    show ?thesis
    proof
      fix p assume "p \<in> set (products (deductStockItem s item))"
      with Some found have "p \<in> set (patchRows (\<lambda>p. p_id p = p_id product)
          (\<lambda>p. p\<lparr>p_stock_cases := max 0 (p_stock_cases product - i_qty item)\<rparr>) (products s))"
        by (simp add: deductStockItem_def Let_def)
      then show "0 \<le> p_stock_cases p"
        using assms by (elim patchRows_cases) simp_all
    qed
  qed
qed

lemma foldl_deductStockItem_nonneg:
  "\<forall>p \<in> set (products s). 0 \<le> p_stock_cases p \<Longrightarrow>
   \<forall>p \<in> set (products (foldl deductStockItem s xs)). 0 \<le> p_stock_cases p"
proof (induction xs arbitrary: s)
  case Nil
  then show ?case by simp
next
  case (Cons x xs)
  from Cons.prems have "\<forall>p \<in> set (products (deductStockItem s x)). 0 \<le> p_stock_cases p"
    by (rule deductStockItem_nonneg)
  then show ?case
    using Cons.IH by simp
qed

text \<open>
  Claim C6. Let \<open>p\<close> be the row that the webhook stock deduction reads for a product, and
  let the order have any number of lines. \<^verbatim>\<open>deductStockForOrder\<close> leaves every column of
  \<open>p\<close> but the stock as it was. The lines of the order for this product whose quantity is
  positive are the ones deducted: with none, the stock is untouched; otherwise the new stock
  is \<open>max 0 (s - q)\<close>, where \<open>s\<close> is the stock of \<open>p\<close> and \<open>q\<close> the sum of the quantities of
  those lines. When \<open>s \<ge> 0\<close> and no line of the order has a negative quantity, the new
  stock is \<open>max 0 (s - q)\<close> for \<open>q\<close> the sum over all lines of the order for the product, so
  for a single line it is the stock minus the quantity of that line, floored at zero. One
  pass of the loop writes \<open>max 0 (s - q)\<close> for the quantity \<open>q\<close> of its line, and a stock
  table without negative entries has none after the deduction for any order.
\<close>

theorem deductStockForOrder_floor:
  assumes prod: "find (\<lambda>p. p_id p = pid) (products s) = Some p" and pid: "pid \<noteq> 0"
  shows "find (\<lambda>p. p_id p = pid) (products (deductStockForOrder s oid)) =
           Some (let deducted = filter (\<lambda>i. i_order_id i = oid \<and> i_product_id i = Some pid \<and>
                                            0 < i_qty i) (order_items s)
                 in if deducted = [] then p
                    else p\<lparr>p_stock_cases :=
                           max 0 (p_stock_cases p - sum_list (map i_qty deducted))\<rparr>) \<and>
         (0 \<le> p_stock_cases p \<and>
          (\<forall>i \<in> set (order_items s). i_order_id i = oid \<longrightarrow> 0 \<le> i_qty i) \<longrightarrow>
            find (\<lambda>p. p_id p = pid) (products (deductStockForOrder s oid)) =
              Some (p\<lparr>p_stock_cases := max 0 (p_stock_cases p -
                      sum_list (map i_qty (filter (\<lambda>i. i_order_id i = oid \<and>
                                   i_product_id i = Some pid) (order_items s))))\<rparr>)) \<and>
         (i_product_id item = Some pid \<longrightarrow>
            find (\<lambda>p. p_id p = pid) (products (deductStockItem s item)) =
              Some (p\<lparr>p_stock_cases := max 0 (p_stock_cases p - i_qty item)\<rparr>)) \<and>
         ((\<forall>r \<in> set (products s). 0 \<le> p_stock_cases r) \<longrightarrow>
            (\<forall>r \<in> set (products (deductStockForOrder s oid')). 0 \<le> p_stock_cases r))"
proof -
  let ?lines = "filter (\<lambda>i. i_order_id i = oid \<and> i_product_id i = Some pid \<and> 0 < i_qty i)
                  (order_items s)"
  let ?all = "filter (\<lambda>i. i_order_id i = oid \<and> i_product_id i = Some pid) (order_items s)"
  let ?valid = "filter validItem (filter (\<lambda>i. i_order_id i = oid) (order_items s))"
  have pos: "\<forall>x \<in> set ?valid. 0 < i_qty x"
    by (simp add: validItem_def)
  have whole: "find (\<lambda>p. p_id p = pid) (products (deductStockForOrder s oid)) =
           Some (if ?lines = [] then p
                 else p\<lparr>p_stock_cases := max 0 (p_stock_cases p - sum_list (map i_qty ?lines))\<rparr>)"
    using foldl_deductStockItem_stock [OF prod pos]
    unfolding validItem_lines [OF pid] deductStockForOrder_def Let_def .
  have sums: "find (\<lambda>p. p_id p = pid) (products (deductStockForOrder s oid)) =
              Some (p\<lparr>p_stock_cases := max 0 (p_stock_cases p - sum_list (map i_qty ?all))\<rparr>)"
    if stock: "0 \<le> p_stock_cases p"
      and q: "\<forall>i \<in> set (order_items s). i_order_id i = oid \<longrightarrow> 0 \<le> i_qty i"
  proof -
    from q have "\<forall>i \<in> set (order_items s).
        (i_order_id i = oid \<and> i_product_id i = Some pid) \<longrightarrow> 0 \<le> i_qty i"
      by simp
    from sum_positive_lines [where P = "\<lambda>i. i_order_id i = oid \<and> i_product_id i = Some pid", OF this]
    have eq: "sum_list (map i_qty ?lines) = sum_list (map i_qty ?all)"
      by (simp add: conj_assoc)
    show ?thesis
    proof (cases "?lines = []")
      case True
      with eq have "sum_list (map i_qty ?all) = 0" by simp
      with True whole stock show ?thesis by simp
    next
      case False
      with whole eq show ?thesis by simp
    qed
  qed
  have body: "find (\<lambda>p. p_id p = pid) (products (deductStockItem s item)) =
           Some (p\<lparr>p_stock_cases := max 0 (p_stock_cases p - i_qty item)\<rparr>)"
    if "i_product_id item = Some pid"
    by (rule deductStockItem_stock [OF that prod])
  have nonneg: "(\<forall>r \<in> set (products s). 0 \<le> p_stock_cases r) \<longrightarrow>
            (\<forall>r \<in> set (products (deductStockForOrder s oid')). 0 \<le> p_stock_cases r)"
    by (simp add: deductStockForOrder_def Let_def foldl_deductStockItem_nonneg)
  from whole sums body nonneg show ?thesis
    unfolding Let_def by (intro conjI impI) simp_all
qed

theorem deductStockForOrder_floor_witness:
  "find (\<lambda>p. p_id p = 1) (products demoBulkStore) = Some demoProduct \<and> (1::nat) \<noteq> 0 \<and>
   find (\<lambda>p. p_id p = 2) (products demoBulkStore) = Some demoSecondProduct \<and> (2::nat) \<noteq> 0 \<and>
   map (\<lambda>i. (i_product_id i, i_qty i)) (filter (\<lambda>i. i_order_id i = 7) (order_items demoBulkStore)) =
     [(Some 1, 6), (Some 2, 1), (Some 1, 7)] \<and>
   p_stock_cases demoProduct = 10 \<and> p_stock_cases demoSecondProduct = 5 \<and>
   find (\<lambda>p. p_id p = 1) (products (deductStockForOrder demoBulkStore 7)) =
     Some (demoProduct\<lparr>p_stock_cases := 0\<rparr>) \<and>
   find (\<lambda>p. p_id p = 2) (products (deductStockForOrder demoBulkStore 7)) =
     Some (demoSecondProduct\<lparr>p_stock_cases := 4\<rparr>) \<and>
   find (\<lambda>p. p_id p = 1) (products (deductStockItem demoBulkStore (demoItem 7))) =
     Some (demoProduct\<lparr>p_stock_cases := 8\<rparr>) \<and>
   map p_stock_cases (products (deductStockForOrder demoBulkStore 7)) = [0, 4]"
proof -
  have a: "find (\<lambda>p. p_id p = 1) (products demoBulkStore) = Some demoProduct"
    "find (\<lambda>p. p_id p = 2) (products demoBulkStore) = Some demoSecondProduct"
    by (simp_all add: demo4_defs demo_defs)
  have n: "(1::nat) \<noteq> 0" "(2::nat) \<noteq> 0" by simp_all
  have l: "map (\<lambda>i. (i_product_id i, i_qty i))
       (filter (\<lambda>i. i_order_id i = 7) (order_items demoBulkStore)) =
     [(Some 1, 6), (Some 2, 1), (Some 1, 7)]"
    by (simp add: demo4_defs demo_defs)
  have l1: "filter (\<lambda>i. i_order_id i = 7 \<and> i_product_id i = Some 1 \<and> 0 < i_qty i)
       (order_items demoBulkStore) = [(demoItem 7)\<lparr>i_qty := 6\<rparr>, (demoItem 7)\<lparr>i_qty := 7\<rparr>]"
    by (simp add: demo4_defs demo_defs)
  have l2: "filter (\<lambda>i. i_order_id i = 7 \<and> i_product_id i = Some 2 \<and> 0 < i_qty i)
       (order_items demoBulkStore) =
     [(demoItem 7)\<lparr>i_product_id := Some 2, i_sku := ''P002'', i_name := ''Water'',
                  i_unit_price := 120, i_qty := 1\<rparr>]"
    by (simp add: demo4_defs demo_defs)
  have st: "p_stock_cases demoProduct = 10" "p_stock_cases demoSecondProduct = 5"
    by (simp_all add: demo4_defs demo_defs)
  have it: "i_product_id (demoItem 7) = Some 1" "i_qty (demoItem 7) = 2"
    by (simp_all add: demo_defs)
  note t1 = deductStockForOrder_floor [OF a(1) n(1), of 7 "demoItem 7" 7]
  note t2 = deductStockForOrder_floor [OF a(2) n(2), of 7 "demoItem 7" 7]
  from t1 have r1: "find (\<lambda>p. p_id p = 1) (products (deductStockForOrder demoBulkStore 7)) =
     Some (demoProduct\<lparr>p_stock_cases := 0\<rparr>)"
    unfolding l1 Let_def by (simp add: st)
  from t2 have r2: "find (\<lambda>p. p_id p = 2) (products (deductStockForOrder demoBulkStore 7)) =
     Some (demoSecondProduct\<lparr>p_stock_cases := 4\<rparr>)"
    unfolding l2 Let_def by (simp add: st)
  from t1 it st have r3: "find (\<lambda>p. p_id p = 1) (products (deductStockItem demoBulkStore (demoItem 7))) =
     Some (demoProduct\<lparr>p_stock_cases := 8\<rparr>)"
    by simp
  have m: "map p_stock_cases (products (deductStockForOrder demoBulkStore 7)) = [0, 4]"
    by (simp add: demo4_defs demo_defs lifecycle_defs)
  from a n l st r1 r2 r3 m show ?thesis by (intro conjI)
qed

section \<open>Webhook signature verification\<close>

text \<open>
  Claim C4, as stated, fails in its last case: with the webhook secret not configured the
  verifier does not return \<^verbatim>\<open>false\<close>, it throws the error of status 500.
\<close>

theorem verify_unconfigured_secret_counterexample:
  "verifyPaymongoWebhookSignature demoHmac [] ''{}'' ''t=17,te=mac(whsec|17.{})'' =
     Inl (Error (Some 500) ''PayMongo webhook secret not configured.'') \<and>
   verifyPaymongoWebhookSignature demoHmac [] ''{}'' ''t=17,te=mac(whsec|17.{})'' \<noteq> Inr False"
  by (simp add: verifyPaymongoWebhookSignature_def)

text \<open>
  Claim C4, amended. When the secret is empty or contains the placeholder \<open>...\<close>,
  \<^verbatim>\<open>verifyPaymongoWebhookSignature\<close> throws the error of status 500. Otherwise it
  returns a boolean, which is true exactly when the header carries a non-empty timestamp
  \<open>t\<close> and the digest of \<open>t.rawBody\<close> under the secret equals the \<open>te\<close> or the
  \<open>li\<close> candidate; so it is false when the timestamp is absent and when both
  candidates are absent.
\<close>

theorem verifyPaymongoWebhookSignature_correct:
  "verifyPaymongoWebhookSignature hmac secret rawBody headerValue =
     (if secret = [] \<or> strIncludes secret ''...''
      then Inl (Error (Some 500) ''PayMongo webhook secret not configured.'')
      else Inr (\<exists>t. parsePaymongoSignature headerValue ''t'' = Some t \<and> t \<noteq> [] \<and>
                 hmac secret (t @ ''.'' @ rawBody) \<noteq> [] \<and>
                 (parsePaymongoSignature headerValue ''te'' = Some (hmac secret (t @ ''.'' @ rawBody)) \<or>
                  parsePaymongoSignature headerValue ''li'' = Some (hmac secret (t @ ''.'' @ rawBody)))))"
  by (auto simp: verifyPaymongoWebhookSignature_def sigCandidates_def Let_def split: option.splits)

theorem verifyPaymongoWebhookSignature_correct_witness:
  "\<not> (''whsec'' = [] \<or> strIncludes ''whsec'' ''...'') \<and>
   parsePaymongoSignature ''t=17,te=mac(whsec|17.{}),li='' ''t'' = Some ''17'' \<and>
   parsePaymongoSignature ''t=17,te=mac(whsec|17.{}),li='' ''te'' = Some (demoHmac ''whsec'' ''17.{}'') \<and>
   verifyPaymongoWebhookSignature demoHmac ''whsec'' ''{}'' ''t=17,te=mac(whsec|17.{}),li='' = Inr True \<and>
   verifyPaymongoWebhookSignature demoHmac ''whsec'' ''{ }'' ''t=17,te=mac(whsec|17.{}),li='' = Inr False \<and>
   verifyPaymongoWebhookSignature demoHmac ''whsec'' ''{}'' ''te=mac(whsec|17.{})'' = Inr False \<and>
   verifyPaymongoWebhookSignature demoHmac ''whsec'' ''{}'' ''t=17'' = Inr False \<and>
   verifyPaymongoWebhookSignature demoHmac ''sk_...'' ''{}'' ''t=17,te=mac(whsec|17.{}),li='' =
     Inl (Error (Some 500) ''PayMongo webhook secret not configured.'')"
proof -
  have a: "\<not> (''whsec'' = [] \<or> strIncludes ''whsec'' ''...'')" by simp
  have b: "parsePaymongoSignature ''t=17,te=mac(whsec|17.{}),li='' ''t'' = Some ''17''"
    "parsePaymongoSignature ''t=17,te=mac(whsec|17.{}),li='' ''te'' = Some (demoHmac ''whsec'' ''17.{}'')"
    "parsePaymongoSignature ''t=17,te=mac(whsec|17.{}),li='' ''li'' = None"
    by (simp_all add: verify_defs)
  have c: "parsePaymongoSignature ''te=mac(whsec|17.{})'' ''t'' = None"
    "parsePaymongoSignature ''t=17'' ''t'' = Some ''17''"
    "parsePaymongoSignature ''t=17'' ''te'' = None"
    "parsePaymongoSignature ''t=17'' ''li'' = None"
    by (simp_all add: verify_defs)
  have d: "strIncludes ''sk_...'' ''...''" by simp
  show ?thesis
    using a b c d
      verifyPaymongoWebhookSignature_correct [of demoHmac "''whsec''" "''{}''" "''t=17,te=mac(whsec|17.{}),li=''"]
      verifyPaymongoWebhookSignature_correct [of demoHmac "''whsec''" "''{ }''" "''t=17,te=mac(whsec|17.{}),li=''"]
      verifyPaymongoWebhookSignature_correct [of demoHmac "''whsec''" "''{}''" "''te=mac(whsec|17.{})''"]
      verifyPaymongoWebhookSignature_correct [of demoHmac "''whsec''" "''{}''" "''t=17''"]
      verifyPaymongoWebhookSignature_correct [of demoHmac "''sk_...''" "''{}''" "''t=17,te=mac(whsec|17.{}),li=''"]
    by (simp add: demoHmac_def)
qed

section \<open>Every order has its Payment row\<close>

text \<open>
  Every operation of the server keeps \<open>paymentRowsPresent\<close>, and the empty store has
  it: the hypothesis of the lemma on a delivery repeated at once holds in every store the
  server has built.
\<close>

lemma map_patchRows_invariant:
  "(\<And>r. f (upd r) = f r) \<Longrightarrow> map f (patchRows sel upd rows) = map f rows"
  by (induction rows) (simp_all add: patchRows_def)

lemma persistOrder_orders:
  assumes "\<And>r v. f (r\<lparr>o_paymongo_checkout_session_id := v\<rparr>) = f r"
  shows "map f (orders (fst (persistOrder gw newCode s c))) =
           map f (orders s) @ [f (orderHeader (next_id s) newCode c)]"
  using assms
  by (simp add: persistOrder_def Let_def map_patchRows_invariant split: sum.splits)



lemma orderHeader_sel [simp]:
  "o_id (orderHeader n code c) = n"
  "o_order_code (orderHeader n code c) = code"
  "o_subtotal (orderHeader n code c) = c_subtotal c"
  "o_delivery_fee (orderHeader n code c) = deliveryFee (c_subtotal c)"
  "o_total (orderHeader n code c) = c_subtotal c + deliveryFee (c_subtotal c)"
  "o_status (orderHeader n code c) =
     (if isQrphMethod (c_paymentMethod c) then ''pending_payment'' else ''order_placed'')"
  "o_payment_method (orderHeader n code c) = c_paymentMethod c"
  by (simp_all add: orderHeader_def Let_def)

lemma empty_store_payment_rows:
  "paymentRowsPresent \<lparr>products = catalog, orders = [], order_items = [],
     order_status_events = [], payments = [], next_id = n\<rparr>"
  by (simp add: paymentRowsPresent_def)

lemma ball_bex_image: "(\<forall>r \<in> A. \<exists>p \<in> B. f p = g r) \<longleftrightarrow> g ` A \<subseteq> f ` B"
proof
  assume L: "\<forall>r \<in> A. \<exists>p \<in> B. f p = g r"
  show "g ` A \<subseteq> f ` B"
  proof
    fix y assume "y \<in> g ` A"
    then obtain r where r: "r \<in> A" "y = g r" by blast
    with L obtain p where p: "p \<in> B" "f p = g r" by blast
    from p(2) r(2) have "y = f p" by simp
    then show "y \<in> f ` B" using p(1) by (rule image_eqI)
  qed
next
  assume R: "g ` A \<subseteq> f ` B"
  show "\<forall>r \<in> A. \<exists>p \<in> B. f p = g r"
  proof
    fix r assume "r \<in> A"
    with R have "g r \<in> f ` B" by blast
    then obtain p where "p \<in> B" "g r = f p" by blast
    then show "\<exists>p \<in> B. f p = g r" by (intro bexI [of _ p]) simp_all
  qed
qed

lemma paymentRowsPresent_iff:
  "paymentRowsPresent s \<longleftrightarrow> set (map o_id (orders s)) \<subseteq> set (map pay_order_id (payments s))"
  unfolding paymentRowsPresent_def set_map by (rule ball_bex_image)

lemma persistOrder_payments:
  "map pay_order_id (payments (fst (persistOrder gw newCode s c))) =
     map pay_order_id (payments s) @ [next_id s]"
  by (simp add: persistOrder_def Let_def map_patchRows_invariant split: sum.splits)

lemma createOrder_keeps_payment_rows:
  assumes "paymentRowsPresent s"
  shows "paymentRowsPresent (fst (createOrder gw newCode s payload authProfile))"
proof (cases "checkOrder s payload authProfile")
  case (Inl e)
  with assms show ?thesis by (simp add: createOrder_def)
next
  case (Inr c)
  then have run: "createOrder gw newCode s payload authProfile = persistOrder gw newCode s c"
    by (simp add: createOrder_def)
  have "map o_id (orders (fst (persistOrder gw newCode s c))) = map o_id (orders s) @ [next_id s]"
    using persistOrder_orders [of o_id gw newCode s c] by simp
  with assms persistOrder_payments [of gw newCode s c] show ?thesis
    unfolding run paymentRowsPresent_iff by auto
qed

lemma updateOrderStatus_keeps_payment_rows:
  assumes "paymentRowsPresent s"
  shows "paymentRowsPresent (fst (updateOrderStatus s code requested actor))"
proof -
  have "map o_id (orders (fst (updateOrderStatus s code requested actor))) = map o_id (orders s)"
    by (simp add: updateOrderStatus_def Let_def map_patchRows_invariant split: option.splits)
  moreover have "payments (fst (updateOrderStatus s code requested actor)) = payments s"
    by (simp add: updateOrderStatus_def Let_def split: option.splits)
  ultimately show ?thesis
    using assms unfolding paymentRowsPresent_iff by simp
qed

lemma markOrderPaid_keeps_payment_rows:
  assumes "paymentRowsPresent s"
  shows "paymentRowsPresent (fst (markOrderPaidFromWebhook s a))"
proof -
  have "map o_id (orders (fst (markOrderPaidFromWebhook s a))) = map o_id (orders s)"
    by (simp add: markOrderPaidFromWebhook_def Let_def map_patchRows_invariant
        deductStockForOrder_frame split: option.splits)
  moreover have "map pay_order_id (payments (fst (markOrderPaidFromWebhook s a))) =
      map pay_order_id (payments s)"
    by (simp add: markOrderPaidFromWebhook_def Let_def map_patchRows_invariant
        deductStockForOrder_frame split: option.splits)
  ultimately show ?thesis
    using assms unfolding paymentRowsPresent_iff by simp
qed



section \<open>Order builder: merging and pricing the cart\<close>

lemma addQty_keys:
  "map fst (addQty m k q) = (if k \<in> set (map fst m) then map fst m else map fst m @ [k])"
  by (induction m k q rule: addQty.induct) auto

lemma addQty_distinct: "distinct (map fst m) \<Longrightarrow> distinct (map fst (addQty m k q))"
  by (simp add: addQty_keys)

lemma mergeItems_distinct:
  "distinct (map fst m) \<Longrightarrow> mergeItems m its = Inr m' \<Longrightarrow> distinct (map fst m')"
proof (induction its arbitrary: m)
  case Nil
  then show ?case by simp
next
  case (Cons it its)
  from Cons.prems(2) have "mergeItems (addQty m (trim (productId it)) (qty it)) its = Inr m'"
    by (simp add: Let_def split: if_splits)
  with Cons.IH [OF addQty_distinct [OF Cons.prems(1)]] show ?case by blast
qed

lemma mergeItems_invalid:
  "\<exists>it \<in> set its. trim (productId it) = [] \<or> qty it \<le> 0 \<Longrightarrow> \<exists>e. mergeItems m its = Inl e"
proof (induction its arbitrary: m)
  case Nil
  then show ?case by simp
next
  case (Cons it its)
  show ?case
  proof (cases "trim (productId it) = [] \<or> qty it \<le> 0")
    case True
    then show ?thesis by (simp add: Let_def)
  next
    case False
    with Cons.prems have "\<exists>it \<in> set its. trim (productId it) = [] \<or> qty it \<le> 0"
      by simp
    from Cons.IH [OF this] False show ?thesis
      by (simp add: Let_def)
  qed
qed


lemma buildItemRows_step:
  "buildItemRows rows ((sku, q) # rest) itemRows subtotal =
     (case productBySku rows sku of
        None \<Rightarrow> Inl (Error None (sku @ '' is inactive.''))
      | Some p \<Rightarrow>
          if \<not> p_is_active p then Inl (Error None (sku @ '' is inactive.''))
          else if p_stock_cases p < q then Inl (Error None (p_name p @ '' has insufficient stock.''))
          else buildItemRows rows rest (itemRows @ [lineOf p q]) (subtotal + p_price p * q))"
  by (simp add: Let_def split: option.splits)

lemma buildItemRows_Inr:
  "buildItemRows rows m acc sub = Inr (out, tot) \<Longrightarrow>
   \<exists>ps. length ps = length m \<and>
        (\<forall>j < length m. productBySku rows (fst (m ! j)) = Some (ps ! j) \<and>
             p_is_active (ps ! j) \<and> snd (m ! j) \<le> p_stock_cases (ps ! j)) \<and>
        out = acc @ map (\<lambda>(p, kq). lineOf p (snd kq)) (zip ps m) \<and>
        tot = sub + (\<Sum>(p, kq) \<leftarrow> zip ps m. p_price p * snd kq)"
proof (induction m arbitrary: acc sub)
  case Nil
  then show ?case by simp
next
  case (Cons kq rest)
  obtain sku q where kq: "kq = (sku, q)" by (cases kq)
  from Cons.prems obtain p where
    p: "productBySku rows sku = Some p" "p_is_active p" "q \<le> p_stock_cases p" and
    rec: "buildItemRows rows rest (acc @ [lineOf p q]) (sub + p_price p * q) = Inr (out, tot)"
    unfolding kq buildItemRows_step
    by (simp split: option.splits if_splits)
  from Cons.IH [OF rec] obtain ps where
    ps: "length ps = length rest"
      "\<forall>j < length rest. productBySku rows (fst (rest ! j)) = Some (ps ! j) \<and>
             p_is_active (ps ! j) \<and> snd (rest ! j) \<le> p_stock_cases (ps ! j)"
      "out = (acc @ [lineOf p q]) @ map (\<lambda>(p, kq). lineOf p (snd kq)) (zip ps rest)"
      "tot = (sub + p_price p * q) + (\<Sum>(p, kq) \<leftarrow> zip ps rest. p_price p * snd kq)"
    by blast
  have "\<forall>j < length (kq # rest). productBySku rows (fst ((kq # rest) ! j)) = Some ((p # ps) ! j) \<and>
             p_is_active ((p # ps) ! j) \<and> snd ((kq # rest) ! j) \<le> p_stock_cases ((p # ps) ! j)"
  proof (intro allI impI)
    fix j assume "j < length (kq # rest)"
    then show "productBySku rows (fst ((kq # rest) ! j)) = Some ((p # ps) ! j) \<and>
             p_is_active ((p # ps) ! j) \<and> snd ((kq # rest) ! j) \<le> p_stock_cases ((p # ps) ! j)"
      using p ps(2) kq by (cases j) simp_all
  qed
  moreover have "length (p # ps) = length (kq # rest)" using ps(1) by simp
  moreover have "out = acc @ map (\<lambda>(p, kq). lineOf p (snd kq)) (zip (p # ps) (kq # rest))"
    using ps(3) kq by simp
  moreover have "tot = sub + (\<Sum>(p, kq) \<leftarrow> zip (p # ps) (kq # rest). p_price p * snd kq)"
    using ps(4) kq by simp
  ultimately show ?case by blast
qed

lemma buildItemRows_Inl:
  "\<exists>(sku, q) \<in> set m. (case productBySku rows sku of None \<Rightarrow> True
       | Some p \<Rightarrow> \<not> p_is_active p \<or> p_stock_cases p < q) \<Longrightarrow>
   \<exists>e. buildItemRows rows m acc sub = Inl e"
proof (induction m arbitrary: acc sub)
  case Nil
  then show ?case by simp
next
  case (Cons kq rest)
  obtain sku q where kq: "kq = (sku, q)" by (cases kq)
  show ?case
  proof (cases "case productBySku rows sku of None \<Rightarrow> True
       | Some p \<Rightarrow> \<not> p_is_active p \<or> p_stock_cases p < q")
    case True
    show ?thesis
    proof (cases "productBySku rows sku")
      case None
      then show ?thesis unfolding kq buildItemRows_step by simp
    next
      case (Some p)
      with True have "\<not> p_is_active p \<or> p_stock_cases p < q" by simp
      then show ?thesis unfolding kq buildItemRows_step
        by (cases "p_is_active p") (simp_all add: Some)
    qed
  next
    case False
    with Cons.prems kq have "\<exists>(sku, q) \<in> set rest. (case productBySku rows sku of None \<Rightarrow> True
       | Some p \<Rightarrow> \<not> p_is_active p \<or> p_stock_cases p < q)"
      by simp
    from Cons.IH [OF this] False show ?thesis unfolding kq buildItemRows_step
      by (simp split: option.splits)
  qed
qed

lemma find_SomeD: "find P xs = Some x \<Longrightarrow> x \<in> set xs \<and> P x"
  by (induction xs) (auto split: if_splits)

lemma productBySku_SomeD:
  "productBySku rows k = Some p \<Longrightarrow> p \<in> set rows \<and> p_sku p = k"
  unfolding productBySku_def using find_SomeD [of "\<lambda>p. p_sku p = k" "rev rows" p] by simp

lemma resolved_unique:
  assumes dist: "distinct (map fst m)"
      and len: "length (getProductsBySkus s (map fst m)) = length m"
      and res: "\<forall>k \<in> set (map fst m). \<exists>p. productBySku (getProductsBySkus s (map fst m)) k = Some p"
      and k: "k \<in> set (map fst m)"
      and p: "p \<in> set (products s)" "p_sku p = k"
  shows "productBySku (getProductsBySkus s (map fst m)) k = Some p"
proof -
  let ?keys = "map fst m"
  let ?rows = "getProductsBySkus s ?keys"
  have sub: "set ?keys \<subseteq> set (map p_sku ?rows)"
  proof
    fix x assume "x \<in> set ?keys"
    with res obtain px where "productBySku ?rows x = Some px" by blast
    from productBySku_SomeD [OF this] show "x \<in> set (map p_sku ?rows)" by force
  qed
  have "card (set ?keys) = length m"
    using distinct_card [OF dist] by simp
  moreover have "card (set ?keys) \<le> card (set (map p_sku ?rows))"
    using sub by (intro card_mono) simp_all
  moreover have "card (set (map p_sku ?rows)) \<le> length (map p_sku ?rows)"
    by (rule card_length)
  ultimately have "card (set (map p_sku ?rows)) = length (map p_sku ?rows)"
    using len by simp
  then have drows: "distinct (map p_sku ?rows)"
    by (rule card_distinct)
  from res k obtain p0 where p0: "productBySku ?rows k = Some p0" by blast
  from productBySku_SomeD [OF p0] have p0r: "p0 \<in> set ?rows" "p_sku p0 = k" by simp_all
  from k have ne: "?keys \<noteq> []" by auto
  from p0r ne have "k \<in> set (escapeCsvValues ?keys)"
    by (simp add: getProductsBySkus_def)
  with p ne have pr: "p \<in> set ?rows"
    by (simp add: getProductsBySkus_def)
  from drows have "inj_on p_sku (set ?rows)"
    by (simp add: distinct_map)
  with pr p0r p(2) have "p = p0"
    by (simp add: inj_on_def)
  with p0 show ?thesis by simp
qed

lemma checkOrder_Inr:
  assumes "checkOrder s payload authProfile = Inr c"
  obtains prof m itemRows where
    "authProfile = Some prof" "user_id prof \<noteq> []"
    "trim (customerName payload) \<noteq> []" "trim (contact payload) \<noteq> []"
    "trim (address payload) \<noteq> []" "items payload \<noteq> []"
    "mergeItems [] (items payload) = Inr m"
    "length (getProductsBySkus s (map fst m)) = length m"
    "buildItemRows (getProductsBySkus s (map fst m)) m [] 0 = Inr (itemRows, c_subtotal c)"
    "c_itemRows c = itemRows"
    "c_user_id c = user_id prof"
    "c_customerName c = trim (customerName payload)"
    "c_contact c = trim (contact payload)"
    "c_address c = trim (address payload)"
    "c_paymentMethod c = trim (if paymentMethod payload = [] then ''QRPH'' else paymentMethod payload)"
proof -
  from assms have fields: "authProfile \<noteq> None" "user_id (the authProfile) \<noteq> []"
    "trim (customerName payload) \<noteq> []" "trim (contact payload) \<noteq> []"
    "trim (address payload) \<noteq> []" "items payload \<noteq> []"
    by (auto simp: checkOrder_def Let_def split: if_splits option.splits)
  then obtain prof where prof: "authProfile = Some prof" "user_id prof \<noteq> []" by auto
  from assms fields prof obtain m where m: "mergeItems [] (items payload) = Inr m"
    by (cases "mergeItems [] (items payload)") (simp_all add: checkOrder_def Let_def)
  from assms fields prof m have len: "length (getProductsBySkus s (map fst m)) = length m"
    by (simp add: checkOrder_def Let_def split: if_splits)
  from assms fields prof m len obtain itemRows sub where
    b: "buildItemRows (getProductsBySkus s (map fst m)) m [] 0 = Inr (itemRows, sub)"
    by (cases "buildItemRows (getProductsBySkus s (map fst m)) m [] 0")
       (auto simp: checkOrder_def Let_def)
  from assms fields prof m len b have c: "c = \<lparr>c_user_id = user_id prof,
                         c_customerName = trim (customerName payload),
                         c_contact = trim (contact payload),
                         c_address = trim (address payload),
                         c_paymentMethod = trim (if paymentMethod payload = [] then ''QRPH'' else paymentMethod payload),
                         c_itemRows = itemRows,
                         c_subtotal = sub\<rparr>"
    by (simp add: checkOrder_def Let_def)
  show ?thesis
    by (rule that [OF prof fields(3-6) m len]) (simp_all add: b c)
qed

lemma withOrderId_sel [simp]:
  "i_order_id (withOrderId oid row) = oid"
  "i_product_id (withOrderId oid row) = i_product_id row"
  "i_sku (withOrderId oid row) = i_sku row"
  "i_unit_price (withOrderId oid row) = i_unit_price row"
  "i_qty (withOrderId oid row) = i_qty row"
  "i_line_total (withOrderId oid row) = i_line_total row"
  by (simp_all add: withOrderId_def item_row.extend_def)

lemma itemRowOf_sel [simp]:
  "i_sku (itemRowOf p u q l) = p_sku p"
  "i_unit_price (itemRowOf p u q l) = u"
  "i_qty (itemRowOf p u q l) = q"
  "i_line_total (itemRowOf p u q l) = l"
  "i_product_id (itemRowOf p u q l) = Some (p_id p)"
  by (simp_all add: itemRowOf_def)


section \<open>Validation comes before every write\<close>

text \<open>
  Claim C9. When the requester is missing, when the name, the contact or the address is
  empty, when there are no items, when an item has an empty SKU or a quantity that is not
  positive, or when a SKU of the merged cart has no product in the catalog, or has one that
  is inactive or holds fewer cases than requested, \<^verbatim>\<open>createOrder\<close> throws and the store
  is the one it was given: no header, item, status event or payment row was inserted.
\<close>

theorem createOrder_rejects_without_writing:
  assumes "authProfile = None \<or> (\<exists>p. authProfile = Some p \<and> user_id p = []) \<or>
           trim (customerName payload) = [] \<or> trim (contact payload) = [] \<or>
           trim (address payload) = [] \<or> items payload = [] \<or>
           (\<exists>it \<in> set (items payload). trim (productId it) = [] \<or> qty it \<le> 0) \<or>
           (\<exists>m. mergeItems [] (items payload) = Inr m \<and>
              (\<exists>(sku, q) \<in> set m.
                 (\<forall>p \<in> set (products s). p_sku p \<noteq> sku) \<or>
                 (\<exists>p \<in> set (products s). p_sku p = sku \<and>
                    (\<not> p_is_active p \<or> p_stock_cases p < q))))"
  shows "\<exists>e. createOrder gw newCode s payload authProfile = (s, Inl e)"
proof (cases "checkOrder s payload authProfile")
  case (Inl e)
  then show ?thesis by (simp add: createOrder_def)
next
  case (Inr c)
  then obtain prof m itemRows where
    ok: "authProfile = Some prof" "user_id prof \<noteq> []"
      "trim (customerName payload) \<noteq> []" "trim (contact payload) \<noteq> []"
      "trim (address payload) \<noteq> []" "items payload \<noteq> []" and
    m: "mergeItems [] (items payload) = Inr m" and
    len: "length (getProductsBySkus s (map fst m)) = length m" and
    b: "buildItemRows (getProductsBySkus s (map fst m)) m [] 0 = Inr (itemRows, c_subtotal c)"
    by (elim checkOrder_Inr)
  let ?rows = "getProductsBySkus s (map fst m)"
  have valid: "\<not> (\<exists>it \<in> set (items payload). trim (productId it) = [] \<or> qty it \<le> 0)"
    using mergeItems_invalid [of "items payload" "[]"] m by auto
  have dist: "distinct (map fst m)"
    using mergeItems_distinct [OF _ m] by simp
  from buildItemRows_Inr [OF b] obtain ps where
    ps: "length ps = length m"
      "\<forall>j < length m. productBySku ?rows (fst (m ! j)) = Some (ps ! j) \<and>
             p_is_active (ps ! j) \<and> snd (m ! j) \<le> p_stock_cases (ps ! j)"
    by blast
  have res: "\<forall>k \<in> set (map fst m). \<exists>p. productBySku ?rows k = Some p"
  proof
    fix k assume "k \<in> set (map fst m)"
    then obtain j where "j < length m" "k = fst (m ! j)"
      by (auto simp: in_set_conv_nth)
    with ps(2) show "\<exists>p. productBySku ?rows k = Some p" by blast
  qed
  have good: "(\<exists>p \<in> set (products s). p_sku p = sku) \<and>
              (\<forall>p \<in> set (products s). p_sku p = sku \<longrightarrow> p_is_active p \<and> q \<le> p_stock_cases p)"
    if "(sku, q) \<in> set m" for sku q
  proof -
    from that obtain j where j: "j < length m" "m ! j = (sku, q)"
      by (auto simp: in_set_conv_nth)
    with ps(2) have pj: "productBySku ?rows sku = Some (ps ! j)"
      "p_is_active (ps ! j)" "q \<le> p_stock_cases (ps ! j)"
      by force+
    from that have k: "sku \<in> set (map fst m)" by force
    from productBySku_SomeD [OF pj(1)] have "ps ! j \<in> set ?rows" "p_sku (ps ! j) = sku"
      by simp_all
    then have ex: "\<exists>p \<in> set (products s). p_sku p = sku"
      by (auto simp: getProductsBySkus_def split: if_splits)
    have "p_is_active p \<and> q \<le> p_stock_cases p" if "p \<in> set (products s)" "p_sku p = sku" for p
      using resolved_unique [OF dist len res k that] pj by simp
    with ex show ?thesis by blast
  qed
  from assms m have "\<exists>(sku, q) \<in> set m.
                 (\<forall>p \<in> set (products s). p_sku p \<noteq> sku) \<or>
                 (\<exists>p \<in> set (products s). p_sku p = sku \<and>
                    (\<not> p_is_active p \<or> p_stock_cases p < q))"
    using ok valid by auto
  then obtain sku q where bad: "(sku, q) \<in> set m"
    "(\<forall>p \<in> set (products s). p_sku p \<noteq> sku) \<or>
                 (\<exists>p \<in> set (products s). p_sku p = sku \<and>
                    (\<not> p_is_active p \<or> p_stock_cases p < q))"
    by blast
  from good [OF bad(1)] bad(2) have False
    by (meson not_le)
  then show ?thesis ..
qed

theorem createOrder_rejects_without_writing_witness:
  "mergeItems [] (items demoLargePayload) = Inr [(''P001'', 11)] \<and>
   demoProduct \<in> set (products demoStore) \<and> p_sku demoProduct = ''P001'' \<and>
   p_stock_cases demoProduct < 11 \<and>
   (\<exists>e. createOrder demoGateway ''ORD-3'' demoStore demoLargePayload (Some demoCustomer) =
      (demoStore, Inl e)) \<and>
   snd (createOrder demoGateway ''ORD-3'' demoStore demoLargePayload (Some demoCustomer)) =
     Inl (Error None ''Cola has insufficient stock.'') \<and>
   (\<exists>e. createOrder demoGateway ''ORD-3'' demoStore demoPayload None = (demoStore, Inl e))"
proof -
  have m: "mergeItems [] (items demoLargePayload) = Inr [(''P001'', 11)]"
    by (simp add: demo3_defs demo2_defs string_defs Let_def)
  have p: "demoProduct \<in> set (products demoStore)" "p_sku demoProduct = ''P001''"
    "p_stock_cases demoProduct < 11"
    by (simp_all add: demo_defs)
  have hyp: "\<exists>m. mergeItems [] (items demoLargePayload) = Inr m \<and>
              (\<exists>(sku, q) \<in> set m.
                 (\<forall>p \<in> set (products demoStore). p_sku p \<noteq> sku) \<or>
                 (\<exists>p \<in> set (products demoStore). p_sku p = sku \<and>
                    (\<not> p_is_active p \<or> p_stock_cases p < q)))"
    using m p by (intro exI [of _ "[(''P001'', 11)]"]) auto
  have e1: "\<exists>e. createOrder demoGateway ''ORD-3'' demoStore demoLargePayload (Some demoCustomer) =
      (demoStore, Inl e)"
    using createOrder_rejects_without_writing [of "Some demoCustomer" demoLargePayload demoStore
        demoGateway "''ORD-3''"] hyp
    by blast
  have e2: "\<exists>e. createOrder demoGateway ''ORD-3'' demoStore demoPayload None = (demoStore, Inl e)"
    using createOrder_rejects_without_writing [of None demoPayload demoStore demoGateway "''ORD-3''"]
    by blast
  have msg: "snd (createOrder demoGateway ''ORD-3'' demoStore demoLargePayload (Some demoCustomer)) =
     Inl (Error None ''Cola has insufficient stock.'')"
    by (simp add: demo3_defs create_defs demo2_defs demo_defs string_defs)
  from m p e1 msg e2 show ?thesis by (intro conjI)
qed

section \<open>The initial status\<close>

text \<open>
  Claim C8. An order that passes the checks is inserted, last in the table, with status
  \<open>pending_payment\<close> when its payment method (\<open>QRPH\<close> when the request names none) is
  a QRPH method, and with status \<open>order_placed\<close> for every other method; this holds as
  well when the gateway call that follows the insertion fails.
\<close>

theorem createOrder_initial_status:
  assumes "checkOrder s payload authProfile = Inr c"
  shows "c_paymentMethod c = trim (if paymentMethod payload = [] then ''QRPH'' else paymentMethod payload) \<and>
         map o_order_code (orders (fst (createOrder gw newCode s payload authProfile))) =
           map o_order_code (orders s) @ [newCode] \<and>
         map o_status (orders (fst (createOrder gw newCode s payload authProfile))) =
           map o_status (orders s) @
             [if isQrphMethod (c_paymentMethod c) then ''pending_payment'' else ''order_placed''] \<and>
         (last (map o_status (orders (fst (createOrder gw newCode s payload authProfile)))) =
            ''pending_payment'' \<longleftrightarrow> isQrphMethod (c_paymentMethod c)) \<and>
         (\<not> isQrphMethod (c_paymentMethod c) \<longrightarrow>
            last (map o_status (orders (fst (createOrder gw newCode s payload authProfile)))) =
              ''order_placed'')"
proof -
  from assms have pm: "c_paymentMethod c =
      trim (if paymentMethod payload = [] then ''QRPH'' else paymentMethod payload)"
    by (elim checkOrder_Inr)
  have run: "createOrder gw newCode s payload authProfile = persistOrder gw newCode s c"
    using assms by (simp add: createOrder_def)
  have codes: "map o_order_code (orders (fst (createOrder gw newCode s payload authProfile))) =
           map o_order_code (orders s) @ [newCode]"
    unfolding run using persistOrder_orders [of o_order_code gw newCode s c] by simp
  have st: "map o_status (orders (fst (createOrder gw newCode s payload authProfile))) =
           map o_status (orders s) @
             [if isQrphMethod (c_paymentMethod c) then ''pending_payment'' else ''order_placed'']"
    unfolding run using persistOrder_orders [of o_status gw newCode s c] by simp
  from pm codes st show ?thesis by simp
qed

theorem createOrder_initial_status_witness:
  "checkOrder demoStore demoPayload (Some demoCustomer) = Inr demoChecked \<and>
   \<not> isQrphMethod (c_paymentMethod demoChecked) \<and>
   map o_status (orders (fst (createOrder demoGateway ''ORD-3'' demoStore demoPayload (Some demoCustomer)))) =
     [''pending_payment'', ''order_placed'', ''order_placed''] \<and>
   checkOrder demoStore (demoPayload\<lparr>paymentMethod := []\<rparr>) (Some demoCustomer) =
     Inr (demoChecked\<lparr>c_paymentMethod := ''QRPH''\<rparr>) \<and>
   isQrphMethod (c_paymentMethod (demoChecked\<lparr>c_paymentMethod := ''QRPH''\<rparr>)) \<and>
   map o_status (orders (fst (createOrder demoGateway ''ORD-3'' demoStore
       (demoPayload\<lparr>paymentMethod := []\<rparr>) (Some demoCustomer)))) =
     [''pending_payment'', ''order_placed'', ''pending_payment'']"
proof -
  have c1: "checkOrder demoStore demoPayload (Some demoCustomer) = Inr demoChecked"
    by (simp add: create_defs demo2_defs demo3_defs demo_defs string_defs)
  have c2: "checkOrder demoStore (demoPayload\<lparr>paymentMethod := []\<rparr>) (Some demoCustomer) =
     Inr (demoChecked\<lparr>c_paymentMethod := ''QRPH''\<rparr>)"
    by (simp add: create_defs demo2_defs demo3_defs demo_defs string_defs)
  have q: "\<not> isQrphMethod (c_paymentMethod demoChecked)"
    "isQrphMethod (c_paymentMethod (demoChecked\<lparr>c_paymentMethod := ''QRPH''\<rparr>))"
    by (simp_all add: demo3_defs string_defs)
  have old: "map o_status (orders demoStore) = [''pending_payment'', ''order_placed'']"
    by (simp add: demo_defs)
  from createOrder_initial_status [OF c1, of demoGateway "''ORD-3''"] q(1) old
  have s1: "map o_status (orders (fst (createOrder demoGateway ''ORD-3'' demoStore demoPayload (Some demoCustomer)))) =
     [''pending_payment'', ''order_placed'', ''order_placed'']"
    by simp
  from createOrder_initial_status [OF c2, of demoGateway "''ORD-3''"] q(2) old
  have s2: "map o_status (orders (fst (createOrder demoGateway ''ORD-3'' demoStore
       (demoPayload\<lparr>paymentMethod := []\<rparr>) (Some demoCustomer)))) =
     [''pending_payment'', ''order_placed'', ''pending_payment'']"
    by simp
  from c1 c2 q s1 s2 show ?thesis by (intro conjI)
qed

section \<open>Order totals\<close>












lemma createOrder_returns_inserted:
  assumes "createOrder gw newCode s payload authProfile = (s1, Inr res)"
  shows "orders s1 \<noteq> orders s"
proof -
  from assms obtain c where chk: "checkOrder s payload authProfile = Inr c"
    by (cases "checkOrder s payload authProfile") (simp_all add: createOrder_def)
  with assms have "s1 = fst (persistOrder gw newCode s c)"
    by (simp add: createOrder_def)
  with persistOrder_orders [of o_id gw newCode s c]
  have "map o_id (orders s1) = map o_id (orders s) @ [next_id s]"
    by simp
  then have "length (map o_id (orders s1)) = Suc (length (map o_id (orders s)))"
    by simp
  then have "length (orders s1) \<noteq> length (orders s)"
    by simp
  then show ?thesis by (rule contrapos_nn) simp
qed



section \<open>The delivery fee\<close>

lemma deliveryFee_steps:
  "0 \<le> subtotal \<Longrightarrow> subtotal < 800 \<Longrightarrow> deliveryFee subtotal = 60"
  "800 \<le> subtotal \<Longrightarrow> deliveryFee subtotal = 0"
  "deliveryFee (79999 / 100) = 60" "deliveryFee 800 = 0" "deliveryFee 1500 = 0"
  by (simp_all add: deliveryFee_def)

text \<open>
  Claim C5 holds for positive subtotals and fails at zero. A cart of one free product
  passes every check with subtotal \<open>0\<close>; \<^verbatim>\<open>createOrder\<close> stores a delivery fee of
  \<open>60\<close> and a total of \<open>60\<close>, where the claim, and the cart page of the same
  repository (\<open>cartDeliveryFee\<close>), give a fee of \<open>0\<close>.
\<close>

theorem createOrder_free_product_fee:
  "checkOrder demoFreeStore demoFreePayload (Some demoCustomer) =
     Inr \<lparr>c_user_id = ''u1'', c_customerName = ''Ana'', c_contact = ''0917'',
          c_address = ''Quezon City'', c_paymentMethod = ''Cash on Delivery'',
          c_itemRows = [\<lparr>i_product_id = Some 2, i_sku = ''P000'', i_name = ''Sample pack'',
                         i_category = ''promo'', i_unit = ''case'', i_image_url = [],
                         i_unit_price = 0, i_qty = 1, i_line_total = 0\<rparr>],
          c_subtotal = 0\<rparr> \<and>
   map (\<lambda>r. (o_order_code r, o_subtotal r, o_delivery_fee r, o_total r))
     (orders (fst (createOrder demoGateway ''ORD-9'' demoFreeStore demoFreePayload (Some demoCustomer)))) =
     [(''ORD-1'', 110, 60, 170), (''ORD-2'', 110, 60, 170), (''ORD-9'', 0, 60, 60)] \<and>
   cartDeliveryFee 0 = 0"
  by (simp add: create_defs demo2_defs demo_defs string_defs cartDeliveryFee_def)

end
